theory Spec2Isabelle
  imports Complex_Main "HOL-Library.AList"
begin

section \<open>JavaScript values used by the client\<close>

text \<open>
  Strings are byte strings (UTF-8). A property that may be \<open>undefined\<close> is an
  \<open>option\<close>. JavaScript's truthiness test on a possibly missing string
  (\<open>if (user?.token)\<close>, \<open>error.code && ...\<close>, \<open>!filename\<close>) is false for a missing
  value and for the empty string.
\<close>

definition truthy :: "string option \<Rightarrow> bool" where
  "truthy v = (case v of None \<Rightarrow> False | Some s \<Rightarrow> s \<noteq> [])"

text \<open>A template literal renders a missing value as the text \<open>undefined\<close>.\<close>

definition template :: "string option \<Rightarrow> string" where
  "template v = (case v of None \<Rightarrow> ''undefined'' | Some s \<Rightarrow> s)"

section \<open>services/axios.js: retry configuration and retry policy\<close>

definition maxRetries :: nat where
  "maxRetries = 3"

definition initialDelayMs :: real where
  "initialDelayMs = 1000"

definition maxDelayMs :: real where
  "maxDelayMs = 5000"

definition backoffFactor :: real where
  "backoffFactor = 2"

definition retryableStatuses :: "nat list" where
  "retryableStatuses = [408, 429, 500, 502, 503, 504]"

definition retryableErrors :: "string list" where
  "retryableErrors =
     [''ECONNABORTED'', ''ETIMEDOUT'', ''ENOTFOUND'', ''ENETUNREACH'', ''ERR_NETWORK'']"

text \<open>
  \<open>getRetryDelay\<close>: the second argument is the value drawn by \<open>Math.random()\<close>, a
  number in \<open>[0, 1)\<close>, so the jitter factor is \<open>rnd * 0.1\<close>. Numbers are modelled as
  reals: the double-precision rounding of the product is not represented.
\<close>

definition getRetryDelay :: "nat \<Rightarrow> real \<Rightarrow> real" where
  "getRetryDelay retryCount rnd =
     (let delay = initialDelayMs * backoffFactor ^ retryCount * (1 + rnd * 0.1)
      in min delay maxDelayMs)"

text \<open>
  The failure of one attempt as the HTTP library reports it: the transport code, the
  response when one arrived, whether the request object is attached, and the
  cancellation mark read by \<open>axios.isCancel\<close>.
\<close>

record error_data =
  message :: "string option"
  dcode :: "string option"

record response =
  status :: nat
  rdata :: "error_data option"

record failure =
  code :: "string option"
  response :: "response option"
  request :: bool
  cancelled :: bool

text \<open>
  \<open>isRetryableError\<close>, clause by clause. The argument may be missing
  (\<open>if (!error) return false\<close>); \<open>error.response?.status && ...\<close> is false for a
  missing response and for status \<open>0\<close>.
\<close>

definition isRetryableError :: "'a failure_scheme option \<Rightarrow> bool" where
  "isRetryableError err =
     (case err of
        None \<Rightarrow> False
      | Some error \<Rightarrow>
          if truthy (code error) \<and> the (code error) \<in> set retryableErrors then True
          else if (case response error of
                     None \<Rightarrow> False
                   | Some r \<Rightarrow> status r \<noteq> 0 \<and> status r \<in> set retryableStatuses) then True
          else if response error = None \<and> request error then True
          else False)"


section \<open>services/axios.js: the request and response interceptors\<close>

text \<open>The session held by the external authentication service.\<close>

record user =
  token :: "string option"
  sessionId :: "string option"

text \<open>
  The request configuration. \<open>retryCount\<close> is the attempt counter the response
  interceptor keeps on the configuration object; a fresh request has none. The body
  \<open>data\<close> is kept as text, and the empty object \<open>{}\<close> is the text \<open>{}\<close>.
\<close>

record config =
  "method" :: string
  url :: string
  serverType :: "string option"
  baseURL :: "string option"
  data :: "string option"
  headers :: "(string \<times> string) list"
  retryCount :: "nat option"

text \<open>The error object the HTTP library rejects with: a failure and the configuration
  of the attempt that failed. Every failure of an attempt carries \<open>error.config\<close>, so the
  fallback \<open>error.config || {}\<close> is not represented.\<close>

record axios_error = failure +
  config :: config

text \<open>
  The error objects the response interceptor builds (\<open>customError\<close>,
  \<open>enhancedError\<close>). Their \<open>retry\<close> closure re-issues \<open>err_config\<close> through the
  client; it is the function \<open>retry\<close> below.
\<close>

record surfaced_error =
  err_message :: string
  isNetworkError :: bool
  originalError :: axios_error
  err_status :: nat
  err_code :: "string option"
  err_data :: "error_data option"
  err_config :: config

datatype rejection = Raw axios_error | Surfaced surfaced_error

datatype settled = Resolved response | Rejected rejection

text \<open>
  The surroundings of one logical request. The transport answers the \<open>k\<close>-th attempt
  sent, the authentication service the \<open>k\<close>-th call of \<open>refreshToken()\<close> (it throws, or
  returns a flag and leaves a session behind), \<open>Math.random()\<close> the \<open>k\<close>-th draw.
\<close>

datatype outcome = Responds response | Fails failure

datatype refresh_outcome = RefreshThrows | RefreshReturns bool "user option"

record env =
  API_GATEWAY_URL :: "string option"
  CHAT_SERVER_URL :: "string option"
  transport :: "nat \<Rightarrow> outcome"
  refreshToken :: "nat \<Rightarrow> refresh_outcome"
  random :: "nat \<Rightarrow> real"
  hasWindow :: bool

text \<open>The effects of a run, in order, and the state they are recorded in.\<close>

datatype event =
    Dispatch config
  | Delay real
  | RefreshCall
  | Logout
  | Navigate string

record world =
  currentUser :: "user option"
  dispatched :: nat
  refreshed :: nat
  drawn :: nat
  events :: "event list"

definition getBaseURLByServerType :: "env \<Rightarrow> string \<Rightarrow> string option" where
  "getBaseURLByServerType env st =
     (if st = ''apiGateway'' then API_GATEWAY_URL env
      else if st = ''chatServer'' then CHAT_SERVER_URL env
      else API_GATEWAY_URL env)"

text \<open>The request interceptor: base address, body for non-GET methods, session headers.\<close>

definition requestInterceptor :: "env \<Rightarrow> world \<Rightarrow> config \<Rightarrow> config" where
  "requestInterceptor env w config0 =
     (let config1 = config0\<lparr>baseURL :=
                      (if truthy (serverType config0)
                       then getBaseURLByServerType env (the (serverType config0))
                       else API_GATEWAY_URL env)\<rparr>;
          config2 = (if method config1 \<noteq> ''get'' \<and> \<not> truthy (data config1)
                     then config1\<lparr>data := Some ''{}''\<rparr> else config1)
      in case currentUser w of
           None \<Rightarrow> config2
         | Some user \<Rightarrow>
             if truthy (token user) then
               let config3 = config2\<lparr>headers :=
                               AList.update ''x-auth-token'' (the (token user)) (headers config2)\<rparr>
               in if truthy (sessionId user)
                  then config3\<lparr>headers :=
                         AList.update ''x-session-id'' (the (sessionId user)) (headers config3)\<rparr>
                  else config3
             else config2)"

text \<open>\<open>MSG_CANNOT_REACH_SERVER\<close>: the UTF-8 bytes of the Korean text for "Cannot communicate with the server."\<close>

definition MSG_CANNOT_REACH_SERVER :: string where
  "MSG_CANNOT_REACH_SERVER =
     [CHR 0xEC, CHR 0x84, CHR 0x9C, CHR 0xEB, CHR 0xB2, CHR 0x84, CHR 0xEC, CHR 0x99, CHR 0x80,
      CHR '' '', CHR 0xED, CHR 0x86, CHR 0xB5, CHR 0xEC, CHR 0x8B, CHR 0xA0, CHR 0xED,
      CHR 0x95, CHR 0xA0, CHR '' '', CHR 0xEC, CHR 0x88, CHR 0x98, CHR '' '', CHR 0xEC,
      CHR 0x97, CHR 0x86, CHR 0xEC, CHR 0x8A, CHR 0xB5, CHR 0xEB, CHR 0x8B, CHR 0x88, CHR 0xEB,
      CHR 0x8B, CHR 0xA4, CHR ''.'']"

text \<open>\<open>MSG_CHECK_NETWORK\<close>: the UTF-8 bytes of the Korean text for "Check the network connection and try again in a moment."\<close>

definition MSG_CHECK_NETWORK :: string where
  "MSG_CHECK_NETWORK =
     [CHR 0xEB, CHR 0x84, CHR 0xA4, CHR 0xED, CHR 0x8A, CHR 0xB8, CHR 0xEC, CHR 0x9B, CHR 0x8C,
      CHR 0xED, CHR 0x81, CHR 0xAC, CHR '' '', CHR 0xEC, CHR 0x97, CHR 0xB0, CHR 0xEA,
      CHR 0xB2, CHR 0xB0, CHR 0xEC, CHR 0x9D, CHR 0x84, CHR '' '', CHR 0xED, CHR 0x99,
      CHR 0x95, CHR 0xEC, CHR 0x9D, CHR 0xB8, CHR 0xED, CHR 0x95, CHR 0x98, CHR 0xEA, CHR 0xB3,
      CHR 0xA0, CHR '' '', CHR 0xEC, CHR 0x9E, CHR 0xA0, CHR 0xEC, CHR 0x8B, CHR 0x9C,
      CHR '' '', CHR 0xED, CHR 0x9B, CHR 0x84, CHR '' '', CHR 0xEB, CHR 0x8B, CHR 0xA4,
      CHR 0xEC, CHR 0x8B, CHR 0x9C, CHR '' '', CHR 0xEC, CHR 0x8B, CHR 0x9C, CHR 0xEB,
      CHR 0x8F, CHR 0x84, CHR 0xED, CHR 0x95, CHR 0xB4, CHR 0xEC, CHR 0xA3, CHR 0xBC, CHR 0xEC,
      CHR 0x84, CHR 0xB8, CHR 0xEC, CHR 0x9A, CHR 0x94, CHR ''.'']"

text \<open>\<open>MSG_BAD_REQUEST\<close>: the UTF-8 bytes of the Korean text for "Bad request."\<close>

definition MSG_BAD_REQUEST :: string where
  "MSG_BAD_REQUEST =
     [CHR 0xEC, CHR 0x9E, CHR 0x98, CHR 0xEB, CHR 0xAA, CHR 0xBB, CHR 0xEB, CHR 0x90, CHR 0x9C,
      CHR '' '', CHR 0xEC, CHR 0x9A, CHR 0x94, CHR 0xEC, CHR 0xB2, CHR 0xAD, CHR 0xEC,
      CHR 0x9E, CHR 0x85, CHR 0xEB, CHR 0x8B, CHR 0x88, CHR 0xEB, CHR 0x8B, CHR 0xA4,
      CHR ''.'']"

text \<open>\<open>MSG_AUTH_REQUIRED\<close>: the UTF-8 bytes of the Korean text for "Authentication is required or has expired."\<close>

definition MSG_AUTH_REQUIRED :: string where
  "MSG_AUTH_REQUIRED =
     [CHR 0xEC, CHR 0x9D, CHR 0xB8, CHR 0xEC, CHR 0xA6, CHR 0x9D, CHR 0xEC, CHR 0x9D, CHR 0xB4,
      CHR '' '', CHR 0xED, CHR 0x95, CHR 0x84, CHR 0xEC, CHR 0x9A, CHR 0x94, CHR 0xED,
      CHR 0x95, CHR 0x98, CHR 0xEA, CHR 0xB1, CHR 0xB0, CHR 0xEB, CHR 0x82, CHR 0x98,
      CHR '' '', CHR 0xEB, CHR 0xA7, CHR 0x8C, CHR 0xEB, CHR 0xA3, CHR 0x8C, CHR 0xEB,
      CHR 0x90, CHR 0x98, CHR 0xEC, CHR 0x97, CHR 0x88, CHR 0xEC, CHR 0x8A, CHR 0xB5, CHR 0xEB,
      CHR 0x8B, CHR 0x88, CHR 0xEB, CHR 0x8B, CHR 0xA4, CHR ''.'']"

text \<open>\<open>MSG_FORBIDDEN\<close>: the UTF-8 bytes of the Korean text for "No access permission."\<close>

definition MSG_FORBIDDEN :: string where
  "MSG_FORBIDDEN =
     [CHR 0xEC, CHR 0xA0, CHR 0x91, CHR 0xEA, CHR 0xB7, CHR 0xBC, CHR '' '', CHR 0xEA,
      CHR 0xB6, CHR 0x8C, CHR 0xED, CHR 0x95, CHR 0x9C, CHR 0xEC, CHR 0x9D, CHR 0xB4,
      CHR '' '', CHR 0xEC, CHR 0x97, CHR 0x86, CHR 0xEC, CHR 0x8A, CHR 0xB5, CHR 0xEB,
      CHR 0x8B, CHR 0x88, CHR 0xEB, CHR 0x8B, CHR 0xA4, CHR ''.'']"

text \<open>\<open>MSG_NOT_FOUND\<close>: the UTF-8 bytes of the Korean text for "The requested resource cannot be found."\<close>

definition MSG_NOT_FOUND :: string where
  "MSG_NOT_FOUND =
     [CHR 0xEC, CHR 0x9A, CHR 0x94, CHR 0xEC, CHR 0xB2, CHR 0xAD, CHR 0xED, CHR 0x95, CHR 0x9C,
      CHR '' '', CHR 0xEB, CHR 0xA6, CHR 0xAC, CHR 0xEC, CHR 0x86, CHR 0x8C, CHR 0xEC,
      CHR 0x8A, CHR 0xA4, CHR 0xEB, CHR 0xA5, CHR 0xBC, CHR '' '', CHR 0xEC, CHR 0xB0,
      CHR 0xBE, CHR 0xEC, CHR 0x9D, CHR 0x84, CHR '' '', CHR 0xEC, CHR 0x88, CHR 0x98,
      CHR '' '', CHR 0xEC, CHR 0x97, CHR 0x86, CHR 0xEC, CHR 0x8A, CHR 0xB5, CHR 0xEB,
      CHR 0x8B, CHR 0x88, CHR 0xEB, CHR 0x8B, CHR 0xA4, CHR ''.'']"

text \<open>\<open>MSG_TIMEOUT\<close>: the UTF-8 bytes of the Korean text for "The request timed out."\<close>

definition MSG_TIMEOUT :: string where
  "MSG_TIMEOUT =
     [CHR 0xEC, CHR 0x9A, CHR 0x94, CHR 0xEC, CHR 0xB2, CHR 0xAD, CHR '' '', CHR 0xEC,
      CHR 0x8B, CHR 0x9C, CHR 0xEA, CHR 0xB0, CHR 0x84, CHR 0xEC, CHR 0x9D, CHR 0xB4,
      CHR '' '', CHR 0xEC, CHR 0xB4, CHR 0x88, CHR 0xEA, CHR 0xB3, CHR 0xBC, CHR 0xEB,
      CHR 0x90, CHR 0x98, CHR 0xEC, CHR 0x97, CHR 0x88, CHR 0xEC, CHR 0x8A, CHR 0xB5, CHR 0xEB,
      CHR 0x8B, CHR 0x88, CHR 0xEB, CHR 0x8B, CHR 0xA4, CHR ''.'']"

text \<open>\<open>MSG_TOO_MANY_REQUESTS\<close>: the UTF-8 bytes of the Korean text for "Too many requests. Try again in a moment."\<close>

definition MSG_TOO_MANY_REQUESTS :: string where
  "MSG_TOO_MANY_REQUESTS =
     [CHR 0xEB, CHR 0x84, CHR 0x88, CHR 0xEB, CHR 0xAC, CHR 0xB4, CHR '' '', CHR 0xEB,
      CHR 0xA7, CHR 0x8E, CHR 0xEC, CHR 0x9D, CHR 0x80, CHR '' '', CHR 0xEC, CHR 0x9A,
      CHR 0x94, CHR 0xEC, CHR 0xB2, CHR 0xAD, CHR 0xEC, CHR 0x9D, CHR 0xB4, CHR '' '',
      CHR 0xEB, CHR 0xB0, CHR 0x9C, CHR 0xEC, CHR 0x83, CHR 0x9D, CHR 0xED, CHR 0x96, CHR 0x88,
      CHR 0xEC, CHR 0x8A, CHR 0xB5, CHR 0xEB, CHR 0x8B, CHR 0x88, CHR 0xEB, CHR 0x8B, CHR 0xA4,
      CHR ''.'', CHR '' '', CHR 0xEC, CHR 0x9E, CHR 0xA0, CHR 0xEC, CHR 0x8B, CHR 0x9C,
      CHR '' '', CHR 0xED, CHR 0x9B, CHR 0x84, CHR '' '', CHR 0xEB, CHR 0x8B, CHR 0xA4,
      CHR 0xEC, CHR 0x8B, CHR 0x9C, CHR '' '', CHR 0xEC, CHR 0x8B, CHR 0x9C, CHR 0xEB,
      CHR 0x8F, CHR 0x84, CHR 0xED, CHR 0x95, CHR 0xB4, CHR 0xEC, CHR 0xA3, CHR 0xBC, CHR 0xEC,
      CHR 0x84, CHR 0xB8, CHR 0xEC, CHR 0x9A, CHR 0x94, CHR ''.'']"

text \<open>\<open>MSG_SERVER_ERROR\<close>: the UTF-8 bytes of the Korean text for "A server error occurred. Try again in a moment."\<close>

definition MSG_SERVER_ERROR :: string where
  "MSG_SERVER_ERROR =
     [CHR 0xEC, CHR 0x84, CHR 0x9C, CHR 0xEB, CHR 0xB2, CHR 0x84, CHR '' '', CHR 0xEC,
      CHR 0x98, CHR 0xA4, CHR 0xEB, CHR 0xA5, CHR 0x98, CHR 0xEA, CHR 0xB0, CHR 0x80,
      CHR '' '', CHR 0xEB, CHR 0xB0, CHR 0x9C, CHR 0xEC, CHR 0x83, CHR 0x9D, CHR 0xED,
      CHR 0x96, CHR 0x88, CHR 0xEC, CHR 0x8A, CHR 0xB5, CHR 0xEB, CHR 0x8B, CHR 0x88, CHR 0xEB,
      CHR 0x8B, CHR 0xA4, CHR ''.'', CHR '' '', CHR 0xEC, CHR 0x9E, CHR 0xA0, CHR 0xEC,
      CHR 0x8B, CHR 0x9C, CHR '' '', CHR 0xED, CHR 0x9B, CHR 0x84, CHR '' '', CHR 0xEB,
      CHR 0x8B, CHR 0xA4, CHR 0xEC, CHR 0x8B, CHR 0x9C, CHR '' '', CHR 0xEC, CHR 0x8B,
      CHR 0x9C, CHR 0xEB, CHR 0x8F, CHR 0x84, CHR 0xED, CHR 0x95, CHR 0xB4, CHR 0xEC, CHR 0xA3,
      CHR 0xBC, CHR 0xEC, CHR 0x84, CHR 0xB8, CHR 0xEC, CHR 0x9A, CHR 0x94, CHR ''.'']"

text \<open>\<open>MSG_UNAVAILABLE\<close>: the UTF-8 bytes of the Korean text for "The server is temporarily unable to respond. Try again in a moment."\<close>

definition MSG_UNAVAILABLE :: string where
  "MSG_UNAVAILABLE =
     [CHR 0xEC, CHR 0x84, CHR 0x9C, CHR 0xEB, CHR 0xB2, CHR 0x84, CHR 0xEA, CHR 0xB0, CHR 0x80,
      CHR '' '', CHR 0xEC, CHR 0x9D, CHR 0xBC, CHR 0xEC, CHR 0x8B, CHR 0x9C, CHR 0xEC,
      CHR 0xA0, CHR 0x81, CHR 0xEC, CHR 0x9C, CHR 0xBC, CHR 0xEB, CHR 0xA1, CHR 0x9C,
      CHR '' '', CHR 0xEC, CHR 0x9D, CHR 0x91, CHR 0xEB, CHR 0x8B, CHR 0xB5, CHR 0xED,
      CHR 0x95, CHR 0xA0, CHR '' '', CHR 0xEC, CHR 0x88, CHR 0x98, CHR '' '', CHR 0xEC,
      CHR 0x97, CHR 0x86, CHR 0xEC, CHR 0x8A, CHR 0xB5, CHR 0xEB, CHR 0x8B, CHR 0x88, CHR 0xEB,
      CHR 0x8B, CHR 0xA4, CHR ''.'', CHR '' '', CHR 0xEC, CHR 0x9E, CHR 0xA0, CHR 0xEC,
      CHR 0x8B, CHR 0x9C, CHR '' '', CHR 0xED, CHR 0x9B, CHR 0x84, CHR '' '', CHR 0xEB,
      CHR 0x8B, CHR 0xA4, CHR 0xEC, CHR 0x8B, CHR 0x9C, CHR '' '', CHR 0xEC, CHR 0x8B,
      CHR 0x9C, CHR 0xEB, CHR 0x8F, CHR 0x84, CHR 0xED, CHR 0x95, CHR 0xB4, CHR 0xEC, CHR 0xA3,
      CHR 0xBC, CHR 0xEC, CHR 0x84, CHR 0xB8, CHR 0xEC, CHR 0x9A, CHR 0x94, CHR ''.'']"

text \<open>\<open>MSG_UNEXPECTED\<close>: the UTF-8 bytes of the Korean text for "An unexpected error occurred."\<close>

definition MSG_UNEXPECTED :: string where
  "MSG_UNEXPECTED =
     [CHR 0xEC, CHR 0x98, CHR 0x88, CHR 0xEA, CHR 0xB8, CHR 0xB0, CHR 0xEC, CHR 0xB9, CHR 0x98,
      CHR '' '', CHR 0xEC, CHR 0x95, CHR 0x8A, CHR 0xEC, CHR 0x9D, CHR 0x80, CHR '' '',
      CHR 0xEC, CHR 0x98, CHR 0xA4, CHR 0xEB, CHR 0xA5, CHR 0x98, CHR 0xEA, CHR 0xB0, CHR 0x80,
      CHR '' '', CHR 0xEB, CHR 0xB0, CHR 0x9C, CHR 0xEC, CHR 0x83, CHR 0x9D, CHR 0xED,
      CHR 0x96, CHR 0x88, CHR 0xEC, CHR 0x8A, CHR 0xB5, CHR 0xEB, CHR 0x8B, CHR 0x88, CHR 0xEB,
      CHR 0x8B, CHR 0xA4, CHR ''.'']"

text \<open>\<open>[...].filter(Boolean).join(" ")\<close>\<close>

fun join :: "string \<Rightarrow> string list \<Rightarrow> string" where
  "join sep [] = []"
| "join sep [x] = x"
| "join sep (x # y # ys) = x @ sep @ join sep (y # ys)"

definition networkMessage :: "string option \<Rightarrow> string" where
  "networkMessage c =
     join '' '' (filter (\<lambda>s. s \<noteq> [])
       [MSG_CANNOT_REACH_SERVER, MSG_CHECK_NETWORK,
        if truthy c then ''(Error: '' @ the c @ '')'' else []])"

definition customError :: "axios_error \<Rightarrow> config \<Rightarrow> surfaced_error" where
  "customError error cfg =
     \<lparr>err_message = networkMessage (code error),
      isNetworkError = True,
      originalError = error,
      err_status = 0,
      err_code = (if truthy (code error) then code error else Some ''NETWORK_ERROR''),
      err_data = None,
      err_config = cfg\<rparr>"

text \<open>The \<open>switch (status)\<close> that selects the message; \<open>errorData?.message || ...\<close>
  prefers a non-empty message sent by the server.\<close>

definition serverMessageOr :: "error_data option \<Rightarrow> string \<Rightarrow> string" where
  "serverMessageOr errorData fallback =
     (case errorData of
        None \<Rightarrow> fallback
      | Some d \<Rightarrow> if truthy (message d) then the (message d) else fallback)"

definition errorMessage :: "nat \<Rightarrow> error_data option \<Rightarrow> string" where
  "errorMessage st errorData =
     (if st = 400 then serverMessageOr errorData MSG_BAD_REQUEST
      else if st = 401 then MSG_AUTH_REQUIRED
      else if st = 403 then serverMessageOr errorData MSG_FORBIDDEN
      else if st = 404 then serverMessageOr errorData MSG_NOT_FOUND
      else if st = 408 then MSG_TIMEOUT
      else if st = 429 then MSG_TOO_MANY_REQUESTS
      else if st = 500 then MSG_SERVER_ERROR
      else if st = 502 \<or> st = 503 \<or> st = 504 then MSG_UNAVAILABLE
      else serverMessageOr errorData MSG_UNEXPECTED)"

definition enhancedError :: "axios_error \<Rightarrow> config \<Rightarrow> response \<Rightarrow> surfaced_error" where
  "enhancedError error cfg r =
     \<lparr>err_message = errorMessage (status r) (rdata r),
      isNetworkError = False,
      originalError = error,
      err_status = status r,
      err_code = (case rdata r of None \<Rightarrow> None | Some d \<Rightarrow> dcode d),
      err_data = rdata r,
      err_config = cfg\<rparr>"

text \<open>The \<open>retry\<close> closure of a surfaced error: the configuration goes through the
  client again.\<close>

definition retry ::
  "(world \<Rightarrow> config \<Rightarrow> settled option \<times> world) \<Rightarrow> surfaced_error \<Rightarrow> world
     \<Rightarrow> settled option \<times> world" where
  "retry dispatch e w = dispatch w (err_config e)"

text \<open>
  \<open>authService.logout()\<close> and the navigation to the login page. Of the call of
  \<open>logout()\<close> only the call itself is recorded: the authentication service is not
  among the sources, and after the call the handler sends nothing and reads no session.
\<close>

definition logout :: "world \<Rightarrow> world" where
  "logout w = w\<lparr>events := events w @ [Logout]\<rparr>"

definition navigate :: "env \<Rightarrow> world \<Rightarrow> world" where
  "navigate env w =
     (if hasWindow env then w\<lparr>events := events w @ [Navigate ''/?error=session_expired'']\<rparr>
      else w)"

text \<open>
  The \<open>if (status === 401)\<close> block followed by \<open>throw enhancedError\<close>. The client is
  the parameter \<open>dispatch\<close>. A throwing \<open>refreshToken()\<close> is the \<open>catch\<close> branch; a
  returned promise of the replay is not awaited inside the \<open>try\<close>, so its rejection
  passes through.
\<close>

definition recover401 ::
  "(world \<Rightarrow> config \<Rightarrow> settled option \<times> world) \<Rightarrow> env \<Rightarrow> world \<Rightarrow> config
     \<Rightarrow> surfaced_error \<Rightarrow> settled option \<times> world" where
  "recover401 dispatch env w cfg enhanced =
     (let w1 = w\<lparr>refreshed := refreshed w + 1, events := events w @ [RefreshCall]\<rparr>
      in case refreshToken env (refreshed w) of
           RefreshThrows \<Rightarrow> (Some (Rejected (Surfaced enhanced)), navigate env (logout w1))
         | RefreshReturns ok u \<Rightarrow>
             let w2 = w1\<lparr>currentUser := u\<rparr>
             in if ok then
                  (case currentUser w2 of
                     None \<Rightarrow> (Some (Rejected (Surfaced enhanced)), w2)
                   | Some user \<Rightarrow>
                       if truthy (token user) then
                         dispatch w2 (cfg\<lparr>headers :=
                           AList.update ''x-auth-token'' (the (token user)) (headers cfg)\<rparr>)
                       else (Some (Rejected (Surfaced enhanced)), w2))
                else (Some (Rejected (Surfaced enhanced)), w2))"

text \<open>The retry branch: count, draw the delay, wait, send the configuration again.\<close>

definition retryBranch ::
  "(world \<Rightarrow> config \<Rightarrow> settled option \<times> world) \<Rightarrow> env \<Rightarrow> world \<Rightarrow> config
     \<Rightarrow> settled option \<times> world" where
  "retryBranch dispatch env w cfg =
     (let cfg' = cfg\<lparr>retryCount := Some (the (retryCount cfg) + 1)\<rparr>;
          delay = getRetryDelay (the (retryCount cfg')) (random env (drawn w));
          w' = w\<lparr>drawn := drawn w + 1, events := events w @ [Delay delay]\<rparr>
      in dispatch w' cfg')"

text \<open>
  The rejection handler of the response interceptor. \<open>config.retryCount || 0\<close> is
  written back to the configuration object, which \<open>error.config\<close> aliases.
\<close>

definition onRejected ::
  "(world \<Rightarrow> config \<Rightarrow> settled option \<times> world) \<Rightarrow> env \<Rightarrow> world \<Rightarrow> axios_error
     \<Rightarrow> settled option \<times> world" where
  "onRejected dispatch env w error0 =
     (let cfg = (config error0)\<lparr>retryCount :=
                  Some (case retryCount (config error0) of None \<Rightarrow> 0 | Some k \<Rightarrow> k)\<rparr>;
          error = error0\<lparr>config := cfg\<rparr>
      in if cancelled error then (Some (Rejected (Raw error)), w)
         else if isRetryableError (Some error) \<and> the (retryCount cfg) < maxRetries
           then retryBranch dispatch env w cfg
         else case response error of
                None \<Rightarrow> (Some (Rejected (Surfaced (customError error cfg))), w)
              | Some r \<Rightarrow>
                  if status r = 401
                  then recover401 dispatch env w cfg (enhancedError error cfg r)
                  else (Some (Rejected (Surfaced (enhancedError error cfg r))), w))"

text \<open>
  Before the interceptors run, the library puts the method into lower case
  (\<open>(config.method || 'get').toLowerCase()\<close>); the letters of a method are ASCII.
\<close>

definition lowerChar :: "char \<Rightarrow> char" where
  "lowerChar c =
     (if 65 \<le> (of_char c :: nat) \<and> (of_char c :: nat) \<le> 90
      then char_of ((of_char c :: nat) + 32) else c)"

definition prepare :: "config \<Rightarrow> config" where
  "prepare cfg =
     cfg\<lparr>method := map lowerChar (if method cfg = [] then ''get'' else method cfg)\<rparr>"

text \<open>The error object of a failed attempt: the failure with the configuration sent.\<close>

definition attach :: "failure \<Rightarrow> config \<Rightarrow> axios_error" where
  "attach f sent = \<lparr>code = code f, response = response f, request = request f,
                   cancelled = cancelled f, config = sent\<rparr>"

text \<open>
  The client: request interceptor, transport, response interceptor. The handler calls
  the client again for a retry and for the replay after a refresh, and nothing bounds
  the number of replays, so the recursion runs on fuel; one unit is one attempt sent.
  Out of fuel the result is \<open>None\<close>, with the state reached so far. The success
  handler only deletes a key from \<open>pendingRequests\<close>, a registry nothing inserts into;
  the registry is not represented.
\<close>

primrec axiosInstance :: "nat \<Rightarrow> env \<Rightarrow> world \<Rightarrow> config \<Rightarrow> settled option \<times> world" where
  "axiosInstance 0 env w cfg = (None, w)"
| "axiosInstance (Suc fuel) env w cfg =
     (let sent = requestInterceptor env w (prepare cfg);
          w1 = w\<lparr>dispatched := dispatched w + 1, events := events w @ [Dispatch sent]\<rparr>
      in case transport env (dispatched w) of
           Responds r \<Rightarrow> (Some (Resolved r), w1)
         | Fails f \<Rightarrow> onRejected (axiosInstance fuel env) env w1 (attach f sent))"

text \<open>The counter as the handler reads it, and the counters of the attempts sent.\<close>

definition attemptNumber :: "config \<Rightarrow> nat" where
  "attemptNumber cfg = (case retryCount cfg of None \<Rightarrow> 0 | Some k \<Rightarrow> k)"

fun attempts :: "event list \<Rightarrow> nat list" where
  "attempts [] = []"
| "attempts (Dispatch c # es) = attemptNumber c # attempts es"
| "attempts (e # es) = attempts es"


section \<open>The file service\<close>

text \<open>
  A file picked for upload (\<open>file.name\<close>, \<open>file.type\<close>, \<open>file.size\<close> in bytes), and the
  descriptor of a stored file as far as the service reads it (\<open>file?.filename\<close>).
\<close>

record js_file =
  file_name :: string
  file_type :: string
  file_size :: nat

record file_info =
  filename :: "string option"

record file_service =
  baseUrl :: "string option"
  uploadLimit :: nat

text \<open>The constructor; the argument is \<open>process.env.NEXT_PUBLIC_API_GATEWAY_URL\<close>.\<close>

definition FileService :: "string option \<Rightarrow> file_service" where
  "FileService gateway = \<lparr>baseUrl = gateway, uploadLimit = 50 * 1024 * 1024\<rparr>"

text \<open>The objects \<open>{ success, message }\<close> and \<open>{ success, data }\<close> the service returns;
  the stored file record is kept as text.\<close>

record result =
  success :: bool
  result_message :: "string option"
  result_data :: "string option"

record upload_session =
  uploadId :: string
  uploadUrl :: string

text \<open>What the service throws: \<open>new Error(message)\<close>, the \<open>TypeError\<close> of
  \<open>new URL\<close>, or the rejection of an HTTP call.\<close>

datatype thrown = Error string | InvalidURL | AxiosError failure

datatype jsval = JString string | JNumber nat

datatype http_call =
    Post string "(string \<times> jsval) list" "(string \<times> string) list"
  | Put string js_file "(string \<times> string) list"

datatype effect = ToastError string | Network http_call

fun networkOps :: "effect list \<Rightarrow> http_call list" where
  "networkOps [] = []"
| "networkOps (Network c # es) = c # networkOps es"
| "networkOps (ToastError m # es) = networkOps es"

text \<open>
  A parsed address as \<open>new URL\<close> holds it: the serialised part before the query, the
  query as a list of pairs, and the fragment.
\<close>

record url_object =
  beforeQuery :: string
  searchParams :: "(string \<times> string) list"
  fragment :: "string option"

text \<open>
  The surroundings of the file service: the session of the authentication service, the
  environment variable, the platform's address parser (\<open>None\<close> when \<open>new URL\<close> throws),
  the value of \<open>Math.floor(Math.log(bytes) / Math.log(1024))\<close> as the platform's
  double-precision logarithm and division give it (the logarithm is only approximated,
  and differently from platform to platform), and the outcomes of the three HTTP calls
  of one upload.
\<close>

record platform =
  getCurrentUser :: "user option"
  NEXT_PUBLIC_API_GATEWAY_URL :: "string option"
  newURL :: "string \<Rightarrow> url_object option"
  floorLogRatio :: "nat \<Rightarrow> int"
  postInit :: "failure + upload_session"
  putFile :: "failure + unit"
  postComplete :: "failure + string"

text \<open>\<open>MSG_NO_FILE_SELECTED\<close>: the UTF-8 bytes of the Korean text for "No file was selected."\<close>

definition MSG_NO_FILE_SELECTED :: string where
  "MSG_NO_FILE_SELECTED =
     [CHR 0xED, CHR 0x8C, CHR 0x8C, CHR 0xEC, CHR 0x9D, CHR 0xBC, CHR 0xEC, CHR 0x9D, CHR 0xB4,
      CHR '' '', CHR 0xEC, CHR 0x84, CHR 0xA0, CHR 0xED, CHR 0x83, CHR 0x9D, CHR 0xEB,
      CHR 0x90, CHR 0x98, CHR 0xEC, CHR 0xA7, CHR 0x80, CHR '' '', CHR 0xEC, CHR 0x95,
      CHR 0x8A, CHR 0xEC, CHR 0x95, CHR 0x98, CHR 0xEC, CHR 0x8A, CHR 0xB5, CHR 0xEB, CHR 0x8B,
      CHR 0x88, CHR 0xEB, CHR 0x8B, CHR 0xA4, CHR ''.'']"

text \<open>\<open>MSG_SIZE_PREFIX\<close>: the UTF-8 bytes of the Korean text for "The file size ... (text before the formatted limit)"\<close>

definition MSG_SIZE_PREFIX :: string where
  "MSG_SIZE_PREFIX =
     [CHR 0xED, CHR 0x8C, CHR 0x8C, CHR 0xEC, CHR 0x9D, CHR 0xBC, CHR '' '', CHR 0xED,
      CHR 0x81, CHR 0xAC, CHR 0xEA, CHR 0xB8, CHR 0xB0, CHR 0xEB, CHR 0x8A, CHR 0x94,
      CHR '' '']"

text \<open>\<open>MSG_SIZE_SUFFIX\<close>: the UTF-8 bytes of the Korean text for "... cannot exceed (text after the formatted limit)."\<close>

definition MSG_SIZE_SUFFIX :: string where
  "MSG_SIZE_SUFFIX =
     [CHR 0xEB, CHR 0xA5, CHR 0xBC, CHR '' '', CHR 0xEC, CHR 0xB4, CHR 0x88, CHR 0xEA,
      CHR 0xB3, CHR 0xBC, CHR 0xED, CHR 0x95, CHR 0xA0, CHR '' '', CHR 0xEC, CHR 0x88,
      CHR 0x98, CHR '' '', CHR 0xEC, CHR 0x97, CHR 0x86, CHR 0xEC, CHR 0x8A, CHR 0xB5,
      CHR 0xEB, CHR 0x8B, CHR 0x88, CHR 0xEB, CHR 0x8B, CHR 0xA4, CHR ''.'']"

text \<open>\<open>MSG_SIZE_EXCEEDED\<close>: the UTF-8 bytes of the Korean text for "File size exceeded"\<close>

definition MSG_SIZE_EXCEEDED :: string where
  "MSG_SIZE_EXCEEDED =
     [CHR 0xED, CHR 0x8C, CHR 0x8C, CHR 0xEC, CHR 0x9D, CHR 0xBC, CHR '' '', CHR 0xED,
      CHR 0x81, CHR 0xAC, CHR 0xEA, CHR 0xB8, CHR 0xB0, CHR '' '', CHR 0xEC, CHR 0xB4,
      CHR 0x88, CHR 0xEA, CHR 0xB3, CHR 0xBC]"

text \<open>\<open>MSG_NO_CREDENTIALS\<close>: the UTF-8 bytes of the Korean text for "There is no authentication information."\<close>

definition MSG_NO_CREDENTIALS :: string where
  "MSG_NO_CREDENTIALS =
     [CHR 0xEC, CHR 0x9D, CHR 0xB8, CHR 0xEC, CHR 0xA6, CHR 0x9D, CHR '' '', CHR 0xEC,
      CHR 0xA0, CHR 0x95, CHR 0xEB, CHR 0xB3, CHR 0xB4, CHR 0xEA, CHR 0xB0, CHR 0x80,
      CHR '' '', CHR 0xEC, CHR 0x97, CHR 0x86, CHR 0xEC, CHR 0x8A, CHR 0xB5, CHR 0xEB,
      CHR 0x8B, CHR 0x88, CHR 0xEB, CHR 0x8B, CHR 0xA4, CHR ''.'']"

text \<open>\<open>MSG_NO_FILENAME\<close>: the UTF-8 bytes of the Korean text for "No file name was provided."\<close>

definition MSG_NO_FILENAME :: string where
  "MSG_NO_FILENAME =
     [CHR 0xED, CHR 0x8C, CHR 0x8C, CHR 0xEC, CHR 0x9D, CHR 0xBC, CHR '' '', CHR 0xEC,
      CHR 0x9D, CHR 0xB4, CHR 0xEB, CHR 0xA6, CHR 0x84, CHR 0xEC, CHR 0x9D, CHR 0xB4,
      CHR '' '', CHR 0xEC, CHR 0xA0, CHR 0x9C, CHR 0xEA, CHR 0xB3, CHR 0xB5, CHR 0xEB,
      CHR 0x90, CHR 0x98, CHR 0xEC, CHR 0xA7, CHR 0x80, CHR '' '', CHR 0xEC, CHR 0x95,
      CHR 0x8A, CHR 0xEC, CHR 0x95, CHR 0x98, CHR 0xEC, CHR 0x8A, CHR 0xB5, CHR 0xEB, CHR 0x8B,
      CHR 0x88, CHR 0xEB, CHR 0x8B, CHR 0xA4, CHR ''.'']"

text \<open>\<open>MSG_NO_FILE_INFO\<close>: the UTF-8 bytes of the Korean text for "No file information was provided."\<close>

definition MSG_NO_FILE_INFO :: string where
  "MSG_NO_FILE_INFO =
     [CHR 0xED, CHR 0x8C, CHR 0x8C, CHR 0xEC, CHR 0x9D, CHR 0xBC, CHR '' '', CHR 0xEC,
      CHR 0xA0, CHR 0x95, CHR 0xEB, CHR 0xB3, CHR 0xB4, CHR 0xEA, CHR 0xB0, CHR 0x80,
      CHR '' '', CHR 0xEC, CHR 0xA0, CHR 0x9C, CHR 0xEA, CHR 0xB3, CHR 0xB5, CHR 0xEB,
      CHR 0x90, CHR 0x98, CHR 0xEC, CHR 0xA7, CHR 0x80, CHR '' '', CHR 0xEC, CHR 0x95,
      CHR 0x8A, CHR 0xEC, CHR 0x95, CHR 0x98, CHR 0xEC, CHR 0x8A, CHR 0xB5, CHR 0xEB, CHR 0x8B,
      CHR 0x88, CHR 0xEB, CHR 0x8B, CHR 0xA4, CHR ''.'']"

subsection \<open>formatFileSize\<close>

definition sizes :: "string list" where
  "sizes = [''B'', ''KB'', ''MB'', ''GB'', ''TB'']"

text \<open>
  The exact integer logarithm to the base 1024, computed on integers, to compare the
  platform's value with; \<open>floorLog1024_real\<close> below relates it to the logarithm on the
  reals.
\<close>

fun floorLog1024 :: "nat \<Rightarrow> nat" where
  "floorLog1024 n = (if n < 1024 then 0 else Suc (floorLog1024 (n div 1024)))"

declare floorLog1024.simps [simp del]

definition digitChar :: "nat \<Rightarrow> char" where
  "digitChar d = ''0123456789'' ! d"

fun showNat :: "nat \<Rightarrow> string" where
  "showNat n = (if n < 10 then [digitChar n] else showNat (n div 10) @ [digitChar (n mod 10)])"

declare showNat.simps [simp del]

text \<open>Hundredths written with two decimals.\<close>

definition showHundredths :: "nat \<Rightarrow> string" where
  "showHundredths n =
     showNat (n div 100) @ ''.'' @ [digitChar (n mod 100 div 10), digitChar (n mod 10)]"

text \<open>
  \<open>x.toFixed(2)\<close> for a non-negative \<open>x\<close> below \<open>10^21\<close>: the integer \<open>n\<close> with
  \<open>n / 100\<close> nearest to \<open>x\<close>, the larger one of two equally near (ECMAScript,
  Number.prototype.toFixed). The quotient of a byte count below \<open>2^53\<close> by a power of
  1024 is exact in double precision, so the real quotient is the number formatted.
\<close>

definition toFixed2 :: "real \<Rightarrow> string" where
  "toFixed2 x = showHundredths (nat \<lfloor>x * 100 + 1 / 2\<rfloor>)"

text \<open>\<open>sizes[i]\<close> in a template literal: outside the table it is \<open>undefined\<close>.\<close>

definition formatFileSize :: "platform \<Rightarrow> nat \<Rightarrow> string" where
  "formatFileSize env bytes =
     (if bytes = 0 then ''0 B''
      else let i = floorLogRatio env bytes
           in toFixed2 (real bytes / 1024 powi i) @ '' ''
              @ template (if 0 \<le> i \<and> i < int (length sizes) then Some (sizes ! nat i)
                          else None))"

text \<open>
  The reading of the specification, "truncated to two decimal places", as a second
  function to compare with: the same units, the hundredths cut off instead of rounded.
\<close>

definition formatFileSize_truncating :: "platform \<Rightarrow> nat \<Rightarrow> string" where
  "formatFileSize_truncating env bytes =
     (if bytes = 0 then ''0 B''
      else let i = floorLogRatio env bytes
           in showHundredths (nat \<lfloor>real bytes / 1024 powi i * 100\<rfloor>) @ '' ''
              @ template (if 0 \<le> i \<and> i < int (length sizes) then Some (sizes ! nat i)
                          else None))"

subsection \<open>Upload\<close>

definition validateFile ::
  "platform \<Rightarrow> file_service \<Rightarrow> js_file option \<Rightarrow> result \<times> effect list" where
  "validateFile env svc f =
     (case f of
        None \<Rightarrow>
          (\<lparr>success = False, result_message = Some MSG_NO_FILE_SELECTED, result_data = None\<rparr>,
           [ToastError MSG_NO_FILE_SELECTED])
      | Some file \<Rightarrow>
          if file_size file > uploadLimit svc then
            (\<lparr>success = False, result_message = Some MSG_SIZE_EXCEEDED, result_data = None\<rparr>,
             [ToastError (MSG_SIZE_PREFIX @ formatFileSize env (uploadLimit svc) @ MSG_SIZE_SUFFIX)])
          else (\<lparr>success = True, result_message = None, result_data = None\<rparr>, []))"

definition initializeUpload ::
  "platform \<Rightarrow> file_service \<Rightarrow> js_file \<Rightarrow> (thrown + upload_session) \<times> effect list" where
  "initializeUpload env svc file =
     (case getCurrentUser env of
        None \<Rightarrow> (Inl (Error MSG_NO_CREDENTIALS), [])
      | Some user \<Rightarrow>
          if \<not> truthy (token user) then (Inl (Error MSG_NO_CREDENTIALS), [])
          else
            let preURL = template (baseUrl svc) @ ''/upload/init'';
                call = Post preURL
                         [(''originalname'', JString (file_name file)),
                          (''mimetype'', JString (file_type file)),
                          (''size'', JNumber (file_size file))]
                         [(''x-auth-token'', the (token user)),
                          (''Content-Type'', ''application/json'')]
            in case postInit env of
                 Inl f \<Rightarrow> (Inl (AxiosError f), [Network call])
               | Inr session \<Rightarrow> (Inr session, [Network call]))"

text \<open>The progress callback of the transfer is not represented.\<close>

definition uploadToS3 :: "platform \<Rightarrow> string \<Rightarrow> js_file \<Rightarrow> (thrown + unit) \<times> effect list" where
  "uploadToS3 env target file =
     (let call = Put target file [(''Content-Type'', file_type file)]
      in case putFile env of
           Inl f \<Rightarrow> (Inl (AxiosError f), [Network call])
         | Inr u \<Rightarrow> (Inr (), [Network call]))"

definition completeUpload ::
  "platform \<Rightarrow> file_service \<Rightarrow> string \<Rightarrow> (thrown + string) \<times> effect list" where
  "completeUpload env svc ident =
     (case getCurrentUser env of
        None \<Rightarrow> (Inl (Error MSG_NO_CREDENTIALS), [])
      | Some user \<Rightarrow>
          if \<not> truthy (token user) then (Inl (Error MSG_NO_CREDENTIALS), [])
          else
            let completeURL = template (baseUrl svc) @ ''/upload/complete/'' @ ident;
                call = Post completeURL [] [(''x-auth-token'', the (token user))]
            in case postComplete env of
                 Inl f \<Rightarrow> (Inl (AxiosError f), [Network call])
               | Inr stored \<Rightarrow> (Inr stored, [Network call]))"

text \<open>\<open>uploadFile\<close>: an exception of a phase ends the function; the effects so far stay.
  After a successful validation the file is present.\<close>

definition uploadFile ::
  "platform \<Rightarrow> file_service \<Rightarrow> js_file option \<Rightarrow> (thrown + result) \<times> effect list" where
  "uploadFile env svc f =
     (case validateFile env svc f of (validation, e0) \<Rightarrow>
        if \<not> success validation then (Inr validation, e0)
        else
          case initializeUpload env svc (the f) of
            (Inl err, e1) \<Rightarrow> (Inl err, e0 @ e1)
          | (Inr uploadData, e1) \<Rightarrow>
              (case uploadToS3 env (uploadUrl uploadData) (the f) of
                 (Inl err, e2) \<Rightarrow> (Inl err, e0 @ e1 @ e2)
               | (Inr u, e2) \<Rightarrow>
                   (case completeUpload env svc (uploadId uploadData) of
                      (Inl err, e3) \<Rightarrow> (Inl err, e0 @ e1 @ e2 @ e3)
                    | (Inr uploadedFileData, e3) \<Rightarrow>
                        (Inr \<lparr>success = True, result_message = None,
                              result_data = Some uploadedFileData\<rparr>,
                         e0 @ e1 @ e2 @ e3))))"

subsection \<open>Addresses of stored files\<close>

text \<open>
  The two encoders of the platform, on bytes. \<open>encodeURIComponent\<close> keeps letters,
  digits and \<open>- _ . ! ~ * ' ( )\<close> (ECMAScript); the serialiser of \<open>URLSearchParams\<close>
  keeps letters, digits and \<open>* - . _\<close> and writes a space as \<open>+\<close> (URL standard,
  application/x-www-form-urlencoded). Every other byte becomes \<open>%XX\<close>.
\<close>

definition hexDigit :: "nat \<Rightarrow> char" where
  "hexDigit d = ''0123456789ABCDEF'' ! d"

definition percentEncode :: "char \<Rightarrow> string" where
  "percentEncode c = [CHR ''%'', hexDigit (of_char c div 16), hexDigit (of_char c mod 16)]"

definition alphanumeric :: "char set" where
  "alphanumeric = set ''ABCDEFGHIJKLMNOPQRSTUVWXYZabcdefghijklmnopqrstuvwxyz0123456789''"

definition encodeURIComponent :: "string \<Rightarrow> string" where
  "encodeURIComponent s =
     concat (map (\<lambda>c. if c \<in> alphanumeric \<or> c \<in> set ''-_.!~*()'' \<or> c = CHR 0x27
                       then [c] else percentEncode c) s)"

definition formEncode :: "string \<Rightarrow> string" where
  "formEncode s =
     concat (map (\<lambda>c. if c = CHR 0x20 then ''+''
                       else if c \<in> alphanumeric \<or> c \<in> set ''*-._'' then [c]
                       else percentEncode c) s)"

definition serializeParams :: "(string \<times> string) list \<Rightarrow> string" where
  "serializeParams ps = join ''&'' (map (\<lambda>(k, v). formEncode k @ ''='' @ formEncode v) ps)"

definition append_param :: "url_object \<Rightarrow> string \<Rightarrow> string \<Rightarrow> url_object" where
  "append_param u k v = u\<lparr>searchParams := searchParams u @ [(k, v)]\<rparr>"

definition toString :: "url_object \<Rightarrow> string" where
  "toString u =
     beforeQuery u
     @ (if searchParams u = [] then [] else ''?'' @ serializeParams (searchParams u))
     @ (case fragment u of None \<Rightarrow> [] | Some f \<Rightarrow> ''#'' @ f)"

definition getFileUrl ::
  "platform \<Rightarrow> file_service \<Rightarrow> string option \<Rightarrow> bool \<Rightarrow> bool \<Rightarrow> thrown + string" where
  "getFileUrl env svc name forPreview withAuth =
     (if \<not> truthy name then Inl (Error MSG_NO_FILENAME)
      else
        let endpoint = (if forPreview then ''view'' else ''download'');
            address = template (baseUrl svc) @ ''/api/files/'' @ endpoint @ ''/'' @ the name
        in if withAuth then
             (case getCurrentUser env of
                None \<Rightarrow> Inr address
              | Some user \<Rightarrow>
                  if truthy (token user) then
                    let params = [(''token'', the (token user))];
                        params' = (if truthy (sessionId user)
                                   then params @ [(''sessionId'', the (sessionId user))]
                                   else params)
                    in Inr (address @ ''?'' @ serializeParams params')
                  else Inr address)
           else Inr address)"

definition getPreviewUrl ::
  "platform \<Rightarrow> file_service \<Rightarrow> file_info option \<Rightarrow> bool \<Rightarrow> thrown + string" where
  "getPreviewUrl env svc f withAuth =
     (if \<not> truthy (case f of None \<Rightarrow> None | Some info \<Rightarrow> filename info)
      then Inl (Error MSG_NO_FILE_INFO)
      else
        let base = (if truthy (baseUrl svc) then the (baseUrl svc)
                    else if truthy (NEXT_PUBLIC_API_GATEWAY_URL env)
                      then the (NEXT_PUBLIC_API_GATEWAY_URL env)
                    else []);
            previewUrl = base @ ''/api/files/view/'' @ the (filename (the f))
        in if withAuth then
             (case getCurrentUser env of
                None \<Rightarrow> Inl (Error MSG_NO_CREDENTIALS)
              | Some user \<Rightarrow>
                  if \<not> truthy (token user) \<or> \<not> truthy (sessionId user)
                  then Inl (Error MSG_NO_CREDENTIALS)
                  else
                    (case newURL env previewUrl of
                       None \<Rightarrow> Inl InvalidURL
                     | Some u \<Rightarrow>
                         Inr (toString
                               (append_param
                                 (append_param u ''token'' (encodeURIComponent (the (token user))))
                                 ''sessionId'' (encodeURIComponent (the (sessionId user)))))))
           else Inr previewUrl)"


section \<open>Classes of failures and example runs\<close>

text \<open>
  A transient failure, as the handler sees it: not a cancellation (those are rejected
  before the classification), retryable, and not answered with status 401 (those go to
  the session refresh once the retry budget is used up).
\<close>

definition transient :: "failure \<Rightarrow> bool" where
  "transient f \<longleftrightarrow>
     \<not> cancelled f \<and> isRetryableError (Some f)
     \<and> (case response f of None \<Rightarrow> True | Some r \<Rightarrow> status r \<noteq> 401)"

text \<open>The session headers as the request interceptor writes them, on their own.\<close>

definition sessionHeaders :: "user option \<Rightarrow> (string \<times> string) list \<Rightarrow> (string \<times> string) list" where
  "sessionHeaders u h =
     (case u of
        None \<Rightarrow> h
      | Some user \<Rightarrow>
          if truthy (token user) then
            (if truthy (sessionId user)
             then AList.update ''x-session-id'' (the (sessionId user))
                    (AList.update ''x-auth-token'' (the (token user)) h)
             else AList.update ''x-auth-token'' (the (token user)) h)
          else h)"

text \<open>
  The error the handler throws for a failure it neither retries nor answers with a
  refresh: \<open>customError\<close> without a response, \<open>enhancedError\<close> with one; the
  configuration is the one sent, with the counter written back.
\<close>

definition terminalError :: "failure \<Rightarrow> config \<Rightarrow> surfaced_error" where
  "terminalError f c =
     (case response f of
        None \<Rightarrow> customError (attach f c) c
      | Some r \<Rightarrow> enhancedError (attach f c) c r)"

text \<open>A failure that carries a transport code although the server answered 401.\<close>

definition timedOut401 :: failure where
  "timedOut401 = \<lparr>code = Some ''ETIMEDOUT'',
                  response = Some \<lparr>status = 401, rdata = None\<rparr>,
                  request = True, cancelled = False\<rparr>"

definition freshWorld :: "user option \<Rightarrow> world" where
  "freshWorld u = \<lparr>currentUser = u, dispatched = 0, refreshed = 0, drawn = 0, events = []\<rparr>"

definition getRooms :: config where
  "getRooms = \<lparr>method = ''get'', url = ''/api/rooms'', serverType = None, baseURL = None,
               data = None, headers = [], retryCount = None\<rparr>"

definition alice :: user where
  "alice = \<lparr>token = Some ''tok-1'', sessionId = Some ''sid 1''\<rparr>"

definition unavailable :: failure where
  "unavailable = \<lparr>code = Some ''ERR_BAD_RESPONSE'',
                  response = Some \<lparr>status = 503, rdata = None\<rparr>,
                  request = True, cancelled = False\<rparr>"

definition unauthorized :: failure where
  "unauthorized = \<lparr>code = Some ''ERR_BAD_REQUEST'',
                   response = Some \<lparr>status = 401, rdata = None\<rparr>,
                   request = True, cancelled = False\<rparr>"

definition offline :: failure where
  "offline = \<lparr>code = Some ''ERR_NETWORK'', response = None,
              request = True, cancelled = False\<rparr>"

definition aborted :: failure where
  "aborted = \<lparr>code = Some ''ERR_CANCELED'', response = None,
              request = True, cancelled = True\<rparr>"

text \<open>An environment in which every attempt fails the same way and \<open>refreshToken()\<close>
  always behaves the same way.\<close>

definition always :: "failure \<Rightarrow> refresh_outcome \<Rightarrow> env" where
  "always f r = \<lparr>API_GATEWAY_URL = Some ''https://api.example.com'',
                 CHAT_SERVER_URL = Some ''https://chat.example.com'',
                 transport = (\<lambda>k. Fails f),
                 refreshToken = (\<lambda>k. r),
                 random = (\<lambda>k. 1 / 2),
                 hasWindow = True\<rparr>"

definition photo :: js_file where
  "photo = \<lparr>file_name = ''photo.png'', file_type = ''image/png'', file_size = 2048\<rparr>"

definition movie :: js_file where
  "movie = \<lparr>file_name = ''movie.mp4'', file_type = ''video/mp4'',
            file_size = 50 * 1024 * 1024 + 1\<rparr>"

definition gateway :: "string option" where
  "gateway = Some ''https://api.example.com''"

text \<open>An address parser for the examples: it knows one address, which the platform's
  parser leaves as it is, and rejects the rest.\<close>

definition exampleURL :: "string \<Rightarrow> url_object option" where
  "exampleURL s =
     (if s = ''https://api.example.com/api/files/view/photo.png''
      then Some \<lparr>beforeQuery = s, searchParams = [], fragment = None\<rparr>
      else None)"

text \<open>The platform of the examples. At the byte counts of the examples the quotient of
  the two double-precision logarithms floors to the exact logarithm.\<close>

definition examplePlatform ::
  "user option \<Rightarrow> failure + upload_session \<Rightarrow> platform" where
  "examplePlatform u init =
     \<lparr>getCurrentUser = u,
      NEXT_PUBLIC_API_GATEWAY_URL = gateway,
      newURL = exampleURL,
      floorLogRatio = (\<lambda>bytes. int (floorLog1024 bytes)),
      postInit = init,
      putFile = Inr (),
      postComplete = Inr ''{id: 7}''\<rparr>"

definition session1 :: upload_session where
  "session1 = \<lparr>uploadId = ''u-1'', uploadUrl = ''https://storage.example.com/put/u-1''\<rparr>"

section \<open>Retry policy: properties\<close>

lemma getRetryDelay_upper: "getRetryDelay n rnd \<le> maxDelayMs"
  by (simp add: getRetryDelay_def Let_def)

lemma getRetryDelay_lower:
  assumes "0 \<le> rnd"
  shows "min maxDelayMs (initialDelayMs * backoffFactor ^ n) \<le> getRetryDelay n rnd"
proof -
  have base: "0 \<le> initialDelayMs * backoffFactor ^ n"
    by (simp add: initialDelayMs_def backoffFactor_def)
  have "initialDelayMs * backoffFactor ^ n * 1
          \<le> initialDelayMs * backoffFactor ^ n * (1 + rnd * 0.1)"
    using assms base by (intro mult_left_mono) auto
  then show ?thesis
    by (simp add: getRetryDelay_def Let_def min_def)
qed

text \<open>
  C1, as stated, fails: at attempt number 3 with no jitter the uncapped product is
  8000 ms, above the 5000 ms the function returns.
\<close>

theorem C1_lower_bound_counterexample:
  "\<not> (initialDelayMs * backoffFactor ^ 3 \<le> getRetryDelay 3 0)"
  by (simp add: getRetryDelay_def Let_def initialDelayMs_def backoffFactor_def maxDelayMs_def)

text \<open>
  C1 (amended): for every attempt number and every jitter draw \<open>rnd\<close> in \<open>[0, 1]\<close>
  (jitter factor \<open>rnd * 0.1\<close> in \<open>[0, 0.1]\<close>) the delay is at most \<open>maxDelayMs\<close> and at
  least the smaller of \<open>maxDelayMs\<close> and \<open>initialDelayMs * backoffFactor ^ n\<close>; so the
  lower bound of the claim holds whenever the uncapped product does not exceed the cap.
\<close>

theorem C1_getRetryDelay_bounds:
  assumes "0 \<le> rnd" and "rnd \<le> 1"
  shows "min maxDelayMs (initialDelayMs * backoffFactor ^ n) \<le> getRetryDelay n rnd
         \<and> getRetryDelay n rnd \<le> maxDelayMs
         \<and> (initialDelayMs * backoffFactor ^ n \<le> maxDelayMs
              \<longrightarrow> initialDelayMs * backoffFactor ^ n \<le> getRetryDelay n rnd)"
  using getRetryDelay_lower [OF assms(1), of n] getRetryDelay_upper [of n rnd]
  by (simp add: min_def split: if_splits)

theorem C1_getRetryDelay_bounds_witness:
  "(0::real) \<le> 1/2 \<and> (1/2::real) \<le> 1
   \<and> min maxDelayMs (initialDelayMs * backoffFactor ^ 2) \<le> getRetryDelay 2 (1/2)
   \<and> getRetryDelay 2 (1/2) \<le> maxDelayMs
   \<and> initialDelayMs * backoffFactor ^ 2 \<le> maxDelayMs
   \<and> initialDelayMs * backoffFactor ^ 2 \<le> getRetryDelay 2 (1/2)
   \<and> getRetryDelay 2 (1/2) = 4200"
  using C1_getRetryDelay_bounds [of "1/2" 2]
  by (simp add: getRetryDelay_def Let_def initialDelayMs_def backoffFactor_def maxDelayMs_def)

lemma retryable_code_iff:
  "(truthy c \<and> the c \<in> set retryableErrors) = (\<exists>s. c = Some s \<and> s \<in> set retryableErrors)"
  by (cases c) (auto simp: truthy_def retryableErrors_def)

lemma retryable_status_iff:
  "(case r of None \<Rightarrow> False | Some x \<Rightarrow> status x \<noteq> 0 \<and> status x \<in> set retryableStatuses)
     = (\<exists>x. r = Some x \<and> status x \<in> set retryableStatuses)"
  by (cases r) (auto simp: retryableStatuses_def)

lemma isRetryableError_iff:
  "isRetryableError (Some e) =
     ((\<exists>s. code e = Some s \<and> s \<in> set retryableErrors)
      \<or> (\<exists>x. response e = Some x \<and> status x \<in> set retryableStatuses)
      \<or> (response e = None \<and> request e))"
  unfolding isRetryableError_def option.case retryable_code_iff retryable_status_iff
  by auto

text \<open>
  C3: a failure is retryable exactly when its transport code is one of the five
  retryable codes, or its response status is one of 408, 429, 500, 502, 503, 504, or
  no response arrived although the request was sent. In particular a response with
  status 429 or 503 makes the failure retryable, and a response with status 400, 401,
  403 or 404 does not: such a failure is retryable only through a retryable transport
  code, and not at all when it carries none.
\<close>

theorem C3_isRetryableError_classification:
  "(isRetryableError (Some e) \<longleftrightarrow>
      (\<exists>s. code e = Some s
            \<and> s \<in> {''ECONNABORTED'', ''ETIMEDOUT'', ''ENOTFOUND'', ''ENETUNREACH'', ''ERR_NETWORK''})
      \<or> (\<exists>x. response e = Some x \<and> status x \<in> {408, 429, 500, 502, 503, 504})
      \<or> (response e = None \<and> request e))
   \<and> (\<forall>x. response e = Some x \<and> status x \<in> {429, 503} \<longrightarrow> isRetryableError (Some e))
   \<and> (\<forall>x. response e = Some x \<and> status x \<in> {400, 401, 403, 404} \<longrightarrow>
         (isRetryableError (Some e) \<longleftrightarrow> (\<exists>s. code e = Some s \<and> s \<in> set retryableErrors)))
   \<and> (\<forall>x. response e = Some x \<and> status x \<in> {400, 401, 403, 404} \<and> code e = None \<longrightarrow>
         \<not> isRetryableError (Some e))
   \<and> \<not> isRetryableError (None :: failure option)"
proof -
  have main: "isRetryableError (Some e) \<longleftrightarrow>
      (\<exists>s. code e = Some s
            \<and> s \<in> {''ECONNABORTED'', ''ETIMEDOUT'', ''ENOTFOUND'', ''ENETUNREACH'', ''ERR_NETWORK''})
      \<or> (\<exists>x. response e = Some x \<and> status x \<in> {408, 429, 500, 502, 503, 504})
      \<or> (response e = None \<and> request e)"
    by (simp add: isRetryableError_iff retryableErrors_def retryableStatuses_def)
  have pos: "\<forall>x. response e = Some x \<and> status x \<in> {429, 503} \<longrightarrow> isRetryableError (Some e)"
    by (auto simp: isRetryableError_iff retryableStatuses_def)
  have neg: "\<forall>x. response e = Some x \<and> status x \<in> {400, 401, 403, 404} \<longrightarrow>
         (isRetryableError (Some e) \<longleftrightarrow> (\<exists>s. code e = Some s \<and> s \<in> set retryableErrors))"
    by (auto simp: isRetryableError_iff retryableStatuses_def)
  have neg': "\<forall>x. response e = Some x \<and> status x \<in> {400, 401, 403, 404} \<and> code e = None \<longrightarrow>
         \<not> isRetryableError (Some e)"
    using neg by auto
  have none: "\<not> isRetryableError (None :: failure option)"
    by (simp add: isRetryableError_def)
  from main pos neg neg' none show ?thesis by blast
qed

theorem C3_isRetryableError_classification_witness:
  "isRetryableError (Some \<lparr>code = None, response = Some \<lparr>status = 503, rdata = None\<rparr>,
                           request = True, cancelled = False\<rparr>)
   \<and> \<not> isRetryableError (Some \<lparr>code = None, response = Some \<lparr>status = 401, rdata = None\<rparr>,
                           request = True, cancelled = False\<rparr>)
   \<and> isRetryableError (Some \<lparr>code = Some ''ETIMEDOUT'', response = None,
                           request = False, cancelled = False\<rparr>)"
  using C3_isRetryableError_classification
          [of "\<lparr>code = None, response = Some \<lparr>status = 503, rdata = None\<rparr>,
                request = True, cancelled = False\<rparr>"]
        C3_isRetryableError_classification
          [of "\<lparr>code = None, response = Some \<lparr>status = 401, rdata = None\<rparr>,
                request = True, cancelled = False\<rparr>"]
        C3_isRetryableError_classification
          [of "\<lparr>code = Some ''ETIMEDOUT'', response = None,
                request = False, cancelled = False\<rparr>"]
  by simp


section \<open>The response interceptor: properties\<close>

lemma attempts_append: "attempts (xs @ ys) = attempts xs @ attempts ys"
  by (induction xs rule: attempts.induct) auto

lemma attach_fields:
  "code (attach f c) = code f" "response (attach f c) = response f"
  "request (attach f c) = request f" "cancelled (attach f c) = cancelled f"
  "config (attach f c) = c"
  by (simp_all add: attach_def)

lemma attach_config: "(attach f c)\<lparr>config := c'\<rparr> = attach f c'"
  by (simp add: attach_def)

lemma retryCount_prepare: "retryCount (prepare c) = retryCount c"
  by (simp add: prepare_def)

lemma retryCount_requestInterceptor:
  "retryCount (requestInterceptor env w c) = retryCount c"
  by (simp add: requestInterceptor_def Let_def split: option.splits)

lemma attemptNumber_sent:
  "attemptNumber (requestInterceptor env w (prepare c)) = attemptNumber c"
  by (simp add: attemptNumber_def retryCount_requestInterceptor retryCount_prepare)

lemma attemptNumber_set: "attemptNumber (c\<lparr>retryCount := Some k\<rparr>) = k"
  by (simp add: attemptNumber_def)

lemma isRetryableError_cong:
  "code a = code b \<Longrightarrow> response a = response b \<Longrightarrow> request a = request b \<Longrightarrow>
     isRetryableError (Some a) = isRetryableError (Some b)"
  by (simp add: isRetryableError_def)

lemma isRetryableError_attach: "isRetryableError (Some (attach f c)) = isRetryableError (Some f)"
  by (rule isRetryableError_cong) (simp_all add: attach_fields)

subsection \<open>The request interceptor sends a configuration it has sent unchanged\<close>

lemma lowerChar_idem: "lowerChar (lowerChar c) = lowerChar c"
  by (simp add: lowerChar_def)

lemma prepare_idem: "prepare (prepare c) = prepare c"
proof -
  have "map lowerChar ''get'' = ''get''" by (simp add: lowerChar_def)
  then show ?thesis
    by (simp add: prepare_def lowerChar_idem)
qed

lemma update_twice: "AList.update k v (AList.update k v al) = AList.update k v al"
  by (induction al) auto

lemma update_again:
  assumes "k \<noteq> k'"
  shows "AList.update k v (AList.update k' v' (AList.update k v al))
           = AList.update k' v' (AList.update k v al)"
proof -
  have "map_of (AList.update k' v' (AList.update k v al)) k = Some v"
    using assms by (simp add: update_conv')
  then show ?thesis by (rule update_triv)
qed

lemma sessionHeaders_idem: "sessionHeaders u (sessionHeaders u h) = sessionHeaders u h"
proof -
  have ne: "''x-auth-token'' \<noteq> ''x-session-id''" by simp
  show ?thesis
    by (cases u) (simp_all add: sessionHeaders_def update_twice update_again [OF ne])
qed

lemma requestInterceptor_fields:
  "requestInterceptor env w c =
     c\<lparr>baseURL := (if truthy (serverType c)
                     then getBaseURLByServerType env (the (serverType c))
                     else API_GATEWAY_URL env),
       data := (if method c \<noteq> ''get'' \<and> \<not> truthy (data c) then Some ''{}'' else data c),
       headers := sessionHeaders (currentUser w) (headers c)\<rparr>"
  by (cases "currentUser w")
     (simp_all add: requestInterceptor_def sessionHeaders_def Let_def)

lemma prepare_updates:
  "prepare (c\<lparr>baseURL := b, data := d, headers := h, retryCount := x\<rparr>)
     = (prepare c)\<lparr>baseURL := b, data := d, headers := h, retryCount := x\<rparr>"
  by (simp add: prepare_def)

lemma requestInterceptor_resend:
  assumes "currentUser w' = currentUser w"
  shows "requestInterceptor env w' (prepare ((requestInterceptor env w (prepare c))\<lparr>retryCount := x\<rparr>))
           = (requestInterceptor env w (prepare c))\<lparr>retryCount := x\<rparr>"
proof -
  have body: "truthy (Some ''{}'')" by (simp add: truthy_def)
  show ?thesis
    unfolding requestInterceptor_fields [of env w "prepare c"]
    apply (simp only: config.update_convs config.simps prepare_updates prepare_idem)
    apply (subst requestInterceptor_fields)
    apply (simp add: assms sessionHeaders_idem body)
    done
qed


subsection \<open>One pass of the handler\<close>

lemma onRejected_retry:
  assumes "\<not> cancelled e" "isRetryableError (Some e)" "attemptNumber (config e) < maxRetries"
  shows "onRejected d env w e =
           d (w\<lparr>drawn := drawn w + 1,
                events := events w @ [Delay (getRetryDelay (attemptNumber (config e) + 1) (random env (drawn w)))]\<rparr>)
             ((config e)\<lparr>retryCount := Some (attemptNumber (config e) + 1)\<rparr>)"
proof -
  have r: "isRetryableError (Some (e\<lparr>config := c\<rparr>)) = isRetryableError (Some e)" for c
    by (simp add: isRetryableError_def)
  show ?thesis
    using assms
    by (simp add: onRejected_def retryBranch_def Let_def r attemptNumber_def split: option.splits)
qed

lemma onRejected_terminal:
  assumes "\<not> cancelled f" "case response f of None \<Rightarrow> True | Some r \<Rightarrow> status r \<noteq> 401"
    "\<not> (isRetryableError (Some f) \<and> attemptNumber c < maxRetries)"
  shows "onRejected d env w (attach f c) =
           (Some (Rejected (Surfaced (terminalError f (c\<lparr>retryCount := Some (attemptNumber c)\<rparr>)))), w)"
proof -
  show ?thesis
    using assms
    by (auto simp: onRejected_def Let_def isRetryableError_attach attach_fields attach_config
        terminalError_def attemptNumber_def split: option.splits)
qed

lemma onRejected_exhausted:
  assumes "\<not> cancelled e" "maxRetries \<le> attemptNumber (config e)"
    "case response e of None \<Rightarrow> True | Some r \<Rightarrow> status r \<noteq> 401"
  shows "\<exists>s. onRejected d env w e = (Some (Rejected (Surfaced s)), w)
             \<and> err_config s = (config e)\<lparr>retryCount := Some (attemptNumber (config e))\<rparr>"
  using assms
  by (auto simp add: onRejected_def Let_def attemptNumber_def customError_def enhancedError_def split: option.splits)

lemma terminalError_fields:
  "err_config (terminalError f c) = c" "originalError (terminalError f c) = attach f c"
  "err_status (terminalError f c) = (case response f of None \<Rightarrow> 0 | Some r \<Rightarrow> status r)"
  by (simp_all add: terminalError_def customError_def enhancedError_def split: option.splits)

subsection \<open>The counter stays within its bound\<close>

lemma recover401_bounded:
  assumes d: "\<And>w cfg. attemptNumber cfg \<le> maxRetries \<Longrightarrow>
                \<exists>es. events (snd (d w cfg)) = events w @ es \<and> (\<forall>n\<in>set (attempts es). n \<le> maxRetries)"
    and c: "attemptNumber cfg \<le> maxRetries"
  shows "\<exists>es. events (snd (recover401 d env w cfg enh)) = events w @ es
              \<and> (\<forall>n\<in>set (attempts es). n \<le> maxRetries)"
proof (cases "refreshToken env (refreshed w)")
  case RefreshThrows
  then show ?thesis
    by (simp add: recover401_def Let_def navigate_def logout_def)
next
  case (RefreshReturns ok u)
  let ?w2 = "w\<lparr>refreshed := refreshed w + 1, events := events w @ [RefreshCall], currentUser := u\<rparr>"
  show ?thesis
  proof (cases "ok \<and> (\<exists>usr. u = Some usr \<and> truthy (token usr))")
    case True
    then obtain usr where u: "u = Some usr" "truthy (token usr)" "ok" by blast
    let ?cfg = "cfg\<lparr>headers := AList.update ''x-auth-token'' (the (token usr)) (headers cfg)\<rparr>"
    have "attemptNumber ?cfg \<le> maxRetries" using c by (simp add: attemptNumber_def)
    from d [OF this, of ?w2] obtain es where
      es: "events (snd (d ?w2 ?cfg)) = events ?w2 @ es" "\<forall>n\<in>set (attempts es). n \<le> maxRetries"
      by blast
    have "recover401 d env w cfg enh = d ?w2 ?cfg"
      using RefreshReturns u by (simp add: recover401_def Let_def)
    with es show ?thesis by (simp add: attempts_append)
  next
    case False
    then have "recover401 d env w cfg enh = (Some (Rejected (Surfaced enh)), ?w2)"
      using RefreshReturns by (auto simp: recover401_def Let_def split: option.splits)
    then show ?thesis by simp
  qed
qed

lemma onRejected_bounded:
  assumes d: "\<And>w cfg. attemptNumber cfg \<le> maxRetries \<Longrightarrow>
                \<exists>es. events (snd (d w cfg)) = events w @ es \<and> (\<forall>n\<in>set (attempts es). n \<le> maxRetries)"
    and c: "attemptNumber (config e) \<le> maxRetries"
  shows "\<exists>es. events (snd (onRejected d env w e)) = events w @ es
              \<and> (\<forall>n\<in>set (attempts es). n \<le> maxRetries)"
proof -
  let ?cfg = "(config e)\<lparr>retryCount := Some (attemptNumber (config e))\<rparr>"
  have cfg: "attemptNumber ?cfg \<le> maxRetries" using c by (simp add: attemptNumber_def)
  consider (cancel) "cancelled e"
    | (retry) "\<not> cancelled e" "isRetryableError (Some e)" "attemptNumber (config e) < maxRetries"
    | (surface) "\<not> cancelled e" "\<not> (isRetryableError (Some e) \<and> attemptNumber (config e) < maxRetries)"
    by blast
  then show ?thesis
  proof cases
    case cancel
    then show ?thesis by (simp add: onRejected_def Let_def)
  next
    case retry
    let ?w = "w\<lparr>drawn := drawn w + 1,
                events := events w @ [Delay (getRetryDelay (attemptNumber (config e) + 1) (random env (drawn w)))]\<rparr>"
    let ?c = "(config e)\<lparr>retryCount := Some (attemptNumber (config e) + 1)\<rparr>"
    have "attemptNumber ?c \<le> maxRetries" using retry(3) by (simp add: attemptNumber_def)
    from d [OF this, of ?w] obtain es where
      "events (snd (d ?w ?c)) = events ?w @ es" "\<forall>n\<in>set (attempts es). n \<le> maxRetries"
      by blast
    then show ?thesis
      by (simp add: onRejected_retry [OF retry] attempts_append)
  next
    case surface
    have r: "isRetryableError (Some (e\<lparr>config := c\<rparr>)) = isRetryableError (Some e)" for c
      by (simp add: isRetryableError_def)
    have eq: "onRejected d env w e =
            (case response e of
               None \<Rightarrow> (Some (Rejected (Surfaced (customError (e\<lparr>config := ?cfg\<rparr>) ?cfg))), w)
             | Some r \<Rightarrow>
                 if status r = 401
                 then recover401 d env w ?cfg (enhancedError (e\<lparr>config := ?cfg\<rparr>) ?cfg r)
                 else (Some (Rejected (Surfaced (enhancedError (e\<lparr>config := ?cfg\<rparr>) ?cfg r))), w))"
      using surface by (auto simp: onRejected_def Let_def r attemptNumber_def split: option.splits)
    show ?thesis
      unfolding eq using recover401_bounded [where d = d and cfg = "?cfg" and env = env and w = w, OF d cfg]
      by (auto split: option.splits)
  qed
qed

lemma axiosInstance_bounded:
  "attemptNumber cfg \<le> maxRetries \<Longrightarrow>
     \<exists>es. events (snd (axiosInstance fuel env w cfg)) = events w @ es
          \<and> (\<forall>n\<in>set (attempts es). n \<le> maxRetries)"
proof (induction fuel arbitrary: w cfg)
  case 0
  then show ?case by simp
next
  case (Suc fuel)
  let ?sent = "requestInterceptor env w (prepare cfg)"
  let ?w1 = "w\<lparr>dispatched := dispatched w + 1, events := events w @ [Dispatch ?sent]\<rparr>"
  have sent: "attemptNumber ?sent \<le> maxRetries"
    using Suc.prems by (simp add: attemptNumber_sent)
  show ?case
  proof (cases "transport env (dispatched w)")
    case (Responds r)
    then show ?thesis using sent by (simp add: Let_def)
  next
    case (Fails f)
    have "attemptNumber (config (attach f ?sent)) \<le> maxRetries"
      using sent by (simp add: attach_fields)
    from onRejected_bounded [where d = "axiosInstance fuel env" and env = env and w = ?w1
        and e = "attach f ?sent", OF Suc.IH this]
    obtain es where es: "events (snd (onRejected (axiosInstance fuel env) env ?w1 (attach f ?sent))) = events ?w1 @ es"
      "\<forall>n\<in>set (attempts es). n \<le> maxRetries" by blast
    have "axiosInstance (Suc fuel) env w cfg = onRejected (axiosInstance fuel env) env ?w1 (attach f ?sent)"
      using Fails by (simp add: Let_def)
    with es sent show ?thesis by (simp add: attempts_append)
  qed
qed

subsection \<open>Runs without cancellations and without status 401\<close>

lemma axiosInstance_run:
  assumes H: "\<forall>k f. transport env k = Fails f \<longrightarrow>
                \<not> cancelled f \<and> (case response f of None \<Rightarrow> True | Some r \<Rightarrow> status r \<noteq> 401)"
  shows "maxRetries - attemptNumber cfg < fuel \<Longrightarrow>
     \<exists>m r w' es. axiosInstance fuel env w cfg = (Some r, w')
        \<and> dispatched w' = dispatched w + Suc m
        \<and> currentUser w' = currentUser w
        \<and> events w' = events w @ es
        \<and> attempts es = [attemptNumber cfg ..< Suc (attemptNumber cfg + m)]
        \<and> (\<forall>i<m. \<exists>f. transport env (dispatched w + i) = Fails f
                \<and> isRetryableError (Some f) \<and> attemptNumber cfg + i < maxRetries)
        \<and> (case r of
              Resolved resp \<Rightarrow> transport env (dispatched w + m) = Responds resp
            | Rejected rej \<Rightarrow>
                \<exists>f. transport env (dispatched w + m) = Fails f
                   \<and> \<not> (isRetryableError (Some f) \<and> attemptNumber cfg + m < maxRetries)
                   \<and> rej = Surfaced (terminalError f
                       ((requestInterceptor env w (prepare cfg))
                          \<lparr>retryCount := Some (attemptNumber cfg + m)\<rparr>)))"
proof (induction fuel arbitrary: w cfg)
  case 0
  then show ?case by simp
next
  case (Suc fuel)
  let ?a = "attemptNumber cfg"
  let ?sent = "requestInterceptor env w (prepare cfg)"
  let ?w1 = "w\<lparr>dispatched := dispatched w + 1, events := events w @ [Dispatch ?sent]\<rparr>"
  have sent: "attemptNumber ?sent = ?a" by (simp add: attemptNumber_sent)
  have one: "attempts [Dispatch ?sent] = [?a ..< Suc (?a + 0)]" by (simp add: sent)
  show ?case
  proof (cases "transport env (dispatched w)")
    case (Responds resp)
    then have run: "axiosInstance (Suc fuel) env w cfg = (Some (Resolved resp), ?w1)"
      by (simp add: Let_def)
    show ?thesis
      using run one Responds
      by (intro exI [of _ 0] exI [of _ "Resolved resp"] exI [of _ ?w1] exI [of _ "[Dispatch ?sent]"])
         simp
  next
    case (Fails f)
    have run: "axiosInstance (Suc fuel) env w cfg
                 = onRejected (axiosInstance fuel env) env ?w1 (attach f ?sent)"
      using Fails by (simp add: Let_def)
    from H [rule_format, OF Fails] have nc: "\<not> cancelled f"
      and n401: "case response f of None \<Rightarrow> True | Some r \<Rightarrow> status r \<noteq> 401" by simp_all
    show ?thesis
    proof (cases "isRetryableError (Some f) \<and> ?a < maxRetries")
      case True
      let ?d = "Delay (getRetryDelay (attemptNumber (config (attach f ?sent)) + 1) (random env (drawn ?w1)))"
      let ?w2 = "?w1\<lparr>drawn := drawn ?w1 + 1, events := events ?w1 @ [?d]\<rparr>"
      let ?c2 = "?sent\<lparr>retryCount := Some (Suc ?a)\<rparr>"
      have step: "onRejected (axiosInstance fuel env) env ?w1 (attach f ?sent)
                    = axiosInstance fuel env ?w2 ?c2"
        using onRejected_retry [of "attach f ?sent" "axiosInstance fuel env" env ?w1] True nc
        by (simp add: attach_fields isRetryableError_attach sent)
      have c2: "attemptNumber ?c2 = Suc ?a" by (simp add: attemptNumber_set)
      have resend: "requestInterceptor env ?w2 (prepare ?c2) = ?c2"
        by (rule requestInterceptor_resend) simp
      have "maxRetries - attemptNumber ?c2 < fuel"
        using True Suc.prems unfolding c2 by linarith
      from Suc.IH [OF this, of ?w2] obtain m r w' es where
        ih: "axiosInstance fuel env ?w2 ?c2 = (Some r, w')"
            "dispatched w' = dispatched ?w2 + Suc m"
            "currentUser w' = currentUser ?w2"
            "events w' = events ?w2 @ es"
            "attempts es = [Suc ?a ..< Suc (Suc ?a + m)]"
            "\<forall>i<m. \<exists>f. transport env (dispatched ?w2 + i) = Fails f
                \<and> isRetryableError (Some f) \<and> Suc ?a + i < maxRetries"
            "case r of
              Resolved resp \<Rightarrow> transport env (dispatched ?w2 + m) = Responds resp
            | Rejected rej \<Rightarrow>
                \<exists>f. transport env (dispatched ?w2 + m) = Fails f
                   \<and> \<not> (isRetryableError (Some f) \<and> Suc ?a + m < maxRetries)
                   \<and> rej = Surfaced (terminalError f (?c2\<lparr>retryCount := Some (Suc ?a + m)\<rparr>))"
        unfolding c2 resend by blast
      let ?es = "[Dispatch ?sent, ?d] @ es"
      have a1: "axiosInstance (Suc fuel) env w cfg = (Some r, w')"
        using run step ih(1) by simp
      have a2: "dispatched w' = dispatched w + Suc (Suc m)" using ih(2) by simp
      have a3: "currentUser w' = currentUser w" using ih(3) by simp
      have a4: "events w' = events w @ ?es" using ih(4) by simp
      have a5: "attempts ?es = [?a ..< Suc (?a + Suc m)]"
        using ih(5) by (simp add: sent upt_conv_Cons)
      have a6: "\<forall>i<Suc m. \<exists>f. transport env (dispatched w + i) = Fails f
                \<and> isRetryableError (Some f) \<and> ?a + i < maxRetries"
      proof (intro allI impI)
        fix i assume "i < Suc m"
        show "\<exists>f. transport env (dispatched w + i) = Fails f
                \<and> isRetryableError (Some f) \<and> ?a + i < maxRetries"
        proof (cases i)
          case 0
          with Fails True show ?thesis by simp
        next
          case (Suc j)
          with \<open>i < Suc m\<close> have "j < m" by simp
          with ih(6) Suc show ?thesis by simp
        qed
      qed
      have a7: "case r of
              Resolved resp \<Rightarrow> transport env (dispatched w + Suc m) = Responds resp
            | Rejected rej \<Rightarrow>
                \<exists>f. transport env (dispatched w + Suc m) = Fails f
                   \<and> \<not> (isRetryableError (Some f) \<and> ?a + Suc m < maxRetries)
                   \<and> rej = Surfaced (terminalError f (?sent\<lparr>retryCount := Some (?a + Suc m)\<rparr>))"
        using ih(7) by (simp split: settled.splits)
      from a1 a2 a3 a4 a5 a6 a7 show ?thesis by blast
    next
      case False
      then have nr: "\<not> (isRetryableError (Some f) \<and> attemptNumber ?sent < maxRetries)"
        by (simp add: sent)
      have fin: "axiosInstance (Suc fuel) env w cfg
            = (Some (Rejected (Surfaced (terminalError f (?sent\<lparr>retryCount := Some ?a\<rparr>)))), ?w1)"
        unfolding run using onRejected_terminal [OF nc n401 nr, of "axiosInstance fuel env" env ?w1]
        by (simp add: sent)
      show ?thesis
        using fin one Fails False
        by (intro exI [of _ 0]
              exI [of _ "Rejected (Surfaced (terminalError f (?sent\<lparr>retryCount := Some ?a\<rparr>)))"]
              exI [of _ ?w1] exI [of _ "[Dispatch ?sent]"])
           simp
    qed
  qed
qed

subsection \<open>Status 401 and the replay after a refresh\<close>

lemma prepare_get: "method c = ''get'' \<Longrightarrow> prepare c = c"
  by (simp add: prepare_def lowerChar_def)

lemma onRejected_401:
  assumes "\<not> cancelled e" "response e = Some r" "status r = 401"
    "\<not> (isRetryableError (Some e) \<and> attemptNumber (config e) < maxRetries)"
  shows "onRejected d env w e =
           recover401 d env w ((config e)\<lparr>retryCount := Some (attemptNumber (config e))\<rparr>)
             (enhancedError
                (e\<lparr>config := (config e)\<lparr>retryCount := Some (attemptNumber (config e))\<rparr>\<rparr>)
                ((config e)\<lparr>retryCount := Some (attemptNumber (config e))\<rparr>) r)"
proof -
  have "isRetryableError (Some (e\<lparr>config := c\<rparr>)) = isRetryableError (Some e)" for c
    by (rule isRetryableError_cong) simp_all
  then show ?thesis
    using assms by (auto simp: onRejected_def Let_def attemptNumber_def split: option.splits)
qed

lemma recover401_replays_once:
  assumes "refreshToken env (refreshed w) = RefreshReturns True (Some u)" "truthy (token u)"
  shows "recover401 d env w cfg enh =
           d (w\<lparr>refreshed := refreshed w + 1, events := events w @ [RefreshCall],
                currentUser := Some u\<rparr>)
             (cfg\<lparr>headers := AList.update ''x-auth-token'' (the (token u)) (headers cfg)\<rparr>)"
  using assms by (simp add: recover401_def Let_def)

text \<open>
  A failure with a retryable transport code and status 401, under a refresh that
  always succeeds: the counter climbs to \<open>maxRetries\<close>, then every further attempt is
  a replay at that counter, and no amount of fuel ends the run.
\<close>

lemma timedOut401_never_ends:
  "attemptNumber cfg \<le> maxRetries \<Longrightarrow>
     fst (axiosInstance n (always timedOut401 (RefreshReturns True (Some alice))) w cfg) = None
     \<and> attempts (events (snd (axiosInstance n (always timedOut401 (RefreshReturns True (Some alice))) w cfg)))
         = attempts (events w) @ map (\<lambda>i. min (attemptNumber cfg + i) maxRetries) [0..<n]"
proof (induction n arbitrary: w cfg)
  case 0
  show ?case by simp
next
  case (Suc n)
  let ?env = "always timedOut401 (RefreshReturns True (Some alice))"
  let ?a = "attemptNumber cfg"
  let ?sent = "requestInterceptor ?env w (prepare cfg)"
  let ?w1 = "w\<lparr>dispatched := dispatched w + 1, events := events w @ [Dispatch ?sent]\<rparr>"
  let ?e = "attach timedOut401 ?sent"
  have sent: "attemptNumber ?sent = ?a" by (simp add: attemptNumber_sent)
  have run: "axiosInstance (Suc n) ?env w cfg = onRejected (axiosInstance n ?env) ?env ?w1 ?e"
    by (simp add: always_def Let_def)
  have retryable: "isRetryableError (Some ?e)"
    by (simp add: isRetryableError_attach)
       (simp add: isRetryableError_def timedOut401_def truthy_def retryableErrors_def)
  have nc: "\<not> cancelled ?e" by (simp add: attach_fields timedOut401_def)
  have shift: "map (\<lambda>i. min (?a + i) maxRetries) [0..<Suc n]
                 = min ?a maxRetries # map (\<lambda>i. min (Suc ?a + i) maxRetries) [0..<n]"
    by (simp add: upt_conv_Cons map_Suc_upt [symmetric] del: upt_Suc)
  show ?case
  proof (cases "?a < maxRetries")
    case True
    let ?w2 = "?w1\<lparr>drawn := drawn ?w1 + 1,
                 events := events ?w1 @ [Delay (getRetryDelay (attemptNumber (config ?e) + 1) (random ?env (drawn ?w1)))]\<rparr>"
    let ?c2 = "(config ?e)\<lparr>retryCount := Some (attemptNumber (config ?e) + 1)\<rparr>"
    have step: "onRejected (axiosInstance n ?env) ?env ?w1 ?e = axiosInstance n ?env ?w2 ?c2"
      using True by (intro onRejected_retry nc retryable) (simp add: attach_fields sent)
    have c2: "attemptNumber ?c2 = Suc ?a" by (simp add: attemptNumber_set attach_fields sent)
    then have "attemptNumber ?c2 \<le> maxRetries" using True by simp
    from Suc.IH [OF this, of ?w2] True show ?thesis
      unfolding run step c2 shift by (simp add: attempts_append sent)
  next
    case False
    with Suc.prems have eq: "?a = maxRetries" by simp
    let ?c = "(config ?e)\<lparr>retryCount := Some (attemptNumber (config ?e))\<rparr>"
    let ?w2 = "?w1\<lparr>refreshed := refreshed ?w1 + 1, events := events ?w1 @ [RefreshCall],
                 currentUser := Some alice\<rparr>"
    let ?c2 = "?c\<lparr>headers := AList.update ''x-auth-token'' (the (token alice)) (headers ?c)\<rparr>"
    have resp: "response ?e = Some \<lparr>status = 401, rdata = None\<rparr>"
      by (simp add: attach_fields timedOut401_def)
    have spent: "\<not> (isRetryableError (Some ?e) \<and> attemptNumber (config ?e) < maxRetries)"
      using False by (simp add: attach_fields sent)
    have "onRejected (axiosInstance n ?env) ?env ?w1 ?e =
            recover401 (axiosInstance n ?env) ?env ?w1 ?c
              (enhancedError (?e\<lparr>config := ?c\<rparr>) ?c \<lparr>status = 401, rdata = None\<rparr>)"
      by (rule onRejected_401 [OF nc resp _ spent]) simp
    also have "\<dots> = axiosInstance n ?env ?w2 ?c2"
      by (rule recover401_replays_once) (simp_all add: always_def alice_def truthy_def)
    finally have step: "onRejected (axiosInstance n ?env) ?env ?w1 ?e = axiosInstance n ?env ?w2 ?c2" .
    have c2: "attemptNumber ?c2 = ?a"
      by (simp add: attemptNumber_def attach_fields sent [unfolded attemptNumber_def])
    then have "attemptNumber ?c2 \<le> maxRetries" using Suc.prems by simp
    from Suc.IH [OF this, of ?w2] show ?thesis
      unfolding run step c2 shift by (simp add: attempts_append sent eq)
  qed
qed


lemma recover401_refresh_throws:
  assumes "refreshToken env (refreshed w) = RefreshThrows"
  shows "fst (recover401 d env w cfg enh) = Some (Rejected (Surfaced enh))
         \<and> Logout \<in> set (events (snd (recover401 d env w cfg enh)))"
  using assms by (simp add: recover401_def Let_def logout_def navigate_def)

lemma recover401_no_usable_session:
  assumes "refreshToken env (refreshed w) = RefreshReturns ok u"
    "\<not> ok \<or> u = None \<or> \<not> truthy (token (the u))"
  shows "recover401 d env w cfg enh =
           (Some (Rejected (Surfaced enh)),
            w\<lparr>refreshed := refreshed w + 1, events := events w @ [RefreshCall],
              currentUser := u\<rparr>)"
  using assms by (auto simp: recover401_def Let_def split: option.splits)

text \<open>
  The replay after a refresh goes through the same handler: while the server keeps
  answering 401 and the refresh keeps succeeding, the request is refreshed and
  replayed again, and no amount of fuel ends the run; each unit of fuel is one more
  attempt sent.
\<close>

lemma refresh_replay_unbounded:
  "fst (axiosInstance n (always unauthorized (RefreshReturns True (Some alice))) w cfg) = None
   \<and> dispatched (snd (axiosInstance n (always unauthorized (RefreshReturns True (Some alice))) w cfg))
       = dispatched w + n"
proof (induction n arbitrary: w cfg)
  case 0
  show ?case by simp
next
  case (Suc n)
  let ?env = "always unauthorized (RefreshReturns True (Some alice))"
  let ?sent = "requestInterceptor ?env w (prepare cfg)"
  let ?w1 = "w\<lparr>dispatched := dispatched w + 1, events := events w @ [Dispatch ?sent]\<rparr>"
  let ?e = "attach unauthorized ?sent"
  let ?c = "(config ?e)\<lparr>retryCount := Some (attemptNumber (config ?e))\<rparr>"
  have run: "axiosInstance (Suc n) ?env w cfg = onRejected (axiosInstance n ?env) ?env ?w1 ?e"
    by (simp add: always_def Let_def)
  have nc: "\<not> cancelled ?e" by (simp add: attach_fields unauthorized_def)
  have resp: "response ?e = Some \<lparr>status = 401, rdata = None\<rparr>"
    by (simp add: attach_fields unauthorized_def)
  have "\<not> isRetryableError (Some ?e)"
    by (simp add: isRetryableError_attach)
       (simp add: isRetryableError_def unauthorized_def truthy_def retryableErrors_def
          retryableStatuses_def)
  then have spent: "\<not> (isRetryableError (Some ?e) \<and> attemptNumber (config ?e) < maxRetries)"
    by simp
  have "onRejected (axiosInstance n ?env) ?env ?w1 ?e =
          recover401 (axiosInstance n ?env) ?env ?w1 ?c
            (enhancedError (?e\<lparr>config := ?c\<rparr>) ?c \<lparr>status = 401, rdata = None\<rparr>)"
    by (rule onRejected_401 [OF nc resp _ spent]) simp
  also have "\<dots> = axiosInstance n ?env
                     (?w1\<lparr>refreshed := refreshed ?w1 + 1, events := events ?w1 @ [RefreshCall],
                          currentUser := Some alice\<rparr>)
                     (?c\<lparr>headers := AList.update ''x-auth-token'' (the (token alice)) (headers ?c)\<rparr>)"
    by (rule recover401_replays_once) (simp_all add: always_def alice_def truthy_def)
  finally show ?case
    unfolding run using Suc.IH by simp
qed

lemmas run_simps =
  eval_nat_numeral always_def freshWorld_def getRooms_def attach_def prepare_get
  onRejected_def retryBranch_def recover401_def requestInterceptor_def Let_def
  isRetryableError_def truthy_def retryableErrors_def retryableStatuses_def maxRetries_def
  attemptNumber_def enhancedError_def customError_def logout_def navigate_def

subsection \<open>The retry loop\<close>

text \<open>
  C4, as stated, fails in two ways. A cancelled request whose failure
  \<open>isRetryableError\<close> classifies as retryable (no response, request sent) is rejected at
  counter 0, with no retry. And a failure with a retryable transport code and status
  401 is retried up to counter 3 and then refreshed and replayed: with a refresh that
  succeeds, six units of fuel send six attempts, the last three at counter 3, and the
  run has not ended.
\<close>

theorem C4_cancelled_or_unauthorized_counterexample:
  "isRetryableError (Some aborted)
   \<and> axiosInstance 4 (always aborted RefreshThrows) (freshWorld None) getRooms
       = (Some (Rejected (Raw (attach aborted
            (getRooms\<lparr>baseURL := Some ''https://api.example.com'', retryCount := Some 0\<rparr>)))),
          \<lparr>currentUser = None, dispatched = 1, refreshed = 0, drawn = 0,
           events = [Dispatch (getRooms\<lparr>baseURL := Some ''https://api.example.com''\<rparr>)]\<rparr>)
   \<and> isRetryableError (Some timedOut401)
   \<and> fst (axiosInstance 6 (always timedOut401 (RefreshReturns True (Some alice)))
            (freshWorld (Some alice)) getRooms) = None
   \<and> attempts (events (snd (axiosInstance 6 (always timedOut401 (RefreshReturns True (Some alice)))
                              (freshWorld (Some alice)) getRooms))) = [0, 1, 2, 3, 3, 3]"
proof -
  have fresh: "attemptNumber getRooms \<le> maxRetries"
    by (simp add: attemptNumber_def getRooms_def)
  have a0: "attemptNumber getRooms = 0" by (simp add: attemptNumber_def getRooms_def)
  have count: "map (\<lambda>i. min (attemptNumber getRooms + i) maxRetries) [0..<6] = [0, 1, 2, 3, 3, 3]"
    by (simp add: a0 maxRetries_def upt_conv_Cons)
  have loop: "fst (axiosInstance 6 (always timedOut401 (RefreshReturns True (Some alice)))
                (freshWorld (Some alice)) getRooms) = None
     \<and> attempts (events (snd (axiosInstance 6 (always timedOut401 (RefreshReturns True (Some alice)))
                              (freshWorld (Some alice)) getRooms))) = [0, 1, 2, 3, 3, 3]"
    using timedOut401_never_ends [OF fresh, of 6 "freshWorld (Some alice)"] count
    by (simp add: freshWorld_def)
  have r1: "isRetryableError (Some aborted)"
    by (simp add: isRetryableError_def aborted_def truthy_def retryableErrors_def)
  have r2: "isRetryableError (Some timedOut401)"
    by (simp add: isRetryableError_def timedOut401_def truthy_def retryableErrors_def)
  have stop: "axiosInstance 4 (always aborted RefreshThrows) (freshWorld None) getRooms
       = (Some (Rejected (Raw (attach aborted
            (getRooms\<lparr>baseURL := Some ''https://api.example.com'', retryCount := Some 0\<rparr>)))),
          \<lparr>currentUser = None, dispatched = 1, refreshed = 0, drawn = 0,
           events = [Dispatch (getRooms\<lparr>baseURL := Some ''https://api.example.com''\<rparr>)]\<rparr>)"
    by (simp add: run_simps aborted_def)
  from r1 stop r2 loop show ?thesis by simp
qed

text \<open>
  C4 (amended): (1) a pass through the retry branch (failure not cancelled, retryable,
  counter below \<open>maxRetries\<close>) sends the configuration again with the counter raised by
  exactly one; (2) with the counter at \<open>maxRetries\<close> or above, a failure that is
  neither a cancellation nor a 401 is surfaced at once and nothing is sent; (3) for a
  request that starts with a counter of at most \<open>maxRetries\<close> (a fresh request has
  none), every attempt sent, after any amount of fuel, carries a counter of at most
  \<open>maxRetries\<close>; (4) if every failure of the transport is transient (not a
  cancellation, retryable, not a 401), the run ends once fuel exceeds the retries left:
  it sends attempts with consecutive counters from the initial one as long as the
  transport fails them, ends in the response of the first attempt the transport
  answers, or, when the attempt at counter \<open>maxRetries\<close> fails as well, in the error
  surfaced for that failure.
\<close>

theorem C4_retry_loop_bounded:
  assumes fresh: "attemptNumber cfg \<le> maxRetries"
  shows "(\<forall>d w e. \<not> cancelled e \<and> isRetryableError (Some e) \<and> attemptNumber (config e) < maxRetries
            \<longrightarrow> onRejected d env w e =
                  d (w\<lparr>drawn := drawn w + 1,
                       events := events w @
                         [Delay (getRetryDelay (attemptNumber (config e) + 1) (random env (drawn w)))]\<rparr>)
                    ((config e)\<lparr>retryCount := Some (attemptNumber (config e) + 1)\<rparr>))
       \<and> (\<forall>d w e. \<not> cancelled e \<and> maxRetries \<le> attemptNumber (config e)
              \<and> (case response e of None \<Rightarrow> True | Some r \<Rightarrow> status r \<noteq> 401)
            \<longrightarrow> (\<exists>s. onRejected d env w e = (Some (Rejected (Surfaced s)), w)))
       \<and> (\<forall>fuel w. \<exists>es. events (snd (axiosInstance fuel env w cfg)) = events w @ es
              \<and> (\<forall>n\<in>set (attempts es). n \<le> maxRetries))
       \<and> ((\<forall>k f. transport env k = Fails f \<longrightarrow> transient f) \<longrightarrow>
            (\<forall>fuel w. maxRetries - attemptNumber cfg < fuel \<longrightarrow>
               (\<exists>m r w' es. axiosInstance fuel env w cfg = (Some r, w')
                  \<and> dispatched w' = dispatched w + Suc m
                  \<and> events w' = events w @ es
                  \<and> attempts es = [attemptNumber cfg ..< Suc (attemptNumber cfg + m)]
                  \<and> attemptNumber cfg + m \<le> maxRetries
                  \<and> (\<forall>i<m. \<exists>f. transport env (dispatched w + i) = Fails f)
                  \<and> (case r of
                        Resolved resp \<Rightarrow> transport env (dispatched w + m) = Responds resp
                      | Rejected rej \<Rightarrow> attemptNumber cfg + m = maxRetries
                          \<and> (\<exists>f s. transport env (dispatched w + m) = Fails f
                                 \<and> rej = Surfaced s
                                 \<and> originalError s = attach f (err_config s)
                                 \<and> attemptNumber (err_config s) = maxRetries)))))"
proof (intro conjI allI impI)
  fix d w and e :: axios_error
  assume "\<not> cancelled e \<and> isRetryableError (Some e) \<and> attemptNumber (config e) < maxRetries"
  then show "onRejected d env w e =
                  d (w\<lparr>drawn := drawn w + 1,
                       events := events w @
                         [Delay (getRetryDelay (attemptNumber (config e) + 1) (random env (drawn w)))]\<rparr>)
                    ((config e)\<lparr>retryCount := Some (attemptNumber (config e) + 1)\<rparr>)"
    by (intro onRejected_retry) simp_all
next
  fix d w and e :: axios_error
  assume "\<not> cancelled e \<and> maxRetries \<le> attemptNumber (config e)
              \<and> (case response e of None \<Rightarrow> True | Some r \<Rightarrow> status r \<noteq> 401)"
  then have "\<not> cancelled e" "maxRetries \<le> attemptNumber (config e)"
    "case response e of None \<Rightarrow> True | Some r \<Rightarrow> status r \<noteq> 401" by simp_all
  from onRejected_exhausted [OF this]
  show "\<exists>s. onRejected d env w e = (Some (Rejected (Surfaced s)), w)" by blast
next
  fix fuel w
  from axiosInstance_bounded [OF fresh]
  show "\<exists>es. events (snd (axiosInstance fuel env w cfg)) = events w @ es
              \<and> (\<forall>n\<in>set (attempts es). n \<le> maxRetries)" .
next
  fix fuel w
  let ?a = "attemptNumber cfg"
  assume T: "\<forall>k f. transport env k = Fails f \<longrightarrow> transient f"
    and fuel: "maxRetries - ?a < fuel"
  from T have H: "\<forall>k f. transport env k = Fails f \<longrightarrow>
                \<not> cancelled f \<and> (case response f of None \<Rightarrow> True | Some r \<Rightarrow> status r \<noteq> 401)"
    by (auto simp: transient_def)
  from axiosInstance_run [OF H fuel, of w] obtain m r w' es where
    run: "axiosInstance fuel env w cfg = (Some r, w')"
         "dispatched w' = dispatched w + Suc m"
         "events w' = events w @ es"
         "attempts es = [?a ..< Suc (?a + m)]"
         "\<forall>i<m. \<exists>f. transport env (dispatched w + i) = Fails f
                \<and> isRetryableError (Some f) \<and> ?a + i < maxRetries"
         "case r of
              Resolved resp \<Rightarrow> transport env (dispatched w + m) = Responds resp
            | Rejected rej \<Rightarrow>
                \<exists>f. transport env (dispatched w + m) = Fails f
                   \<and> \<not> (isRetryableError (Some f) \<and> ?a + m < maxRetries)
                   \<and> rej = Surfaced (terminalError f
                       ((requestInterceptor env w (prepare cfg))\<lparr>retryCount := Some (?a + m)\<rparr>))"
    by blast
  have le: "?a + m \<le> maxRetries"
  proof (cases m)
    case 0
    with fresh show ?thesis by simp
  next
    case (Suc j)
    then have "j < m" by simp
    with run(5) have "?a + j < maxRetries" by blast
    with Suc show ?thesis by simp
  qed
  have fails: "\<forall>i<m. \<exists>f. transport env (dispatched w + i) = Fails f"
    using run(5) by blast
  have last: "case r of
                Resolved resp \<Rightarrow> transport env (dispatched w + m) = Responds resp
              | Rejected rej \<Rightarrow> ?a + m = maxRetries
                  \<and> (\<exists>f s. transport env (dispatched w + m) = Fails f
                         \<and> rej = Surfaced s
                         \<and> originalError s = attach f (err_config s)
                         \<and> attemptNumber (err_config s) = maxRetries)"
  proof (cases r)
    case (Resolved resp)
    with run(6) show ?thesis by simp
  next
    case (Rejected rej)
    with run(6) obtain f where
      f: "transport env (dispatched w + m) = Fails f"
         "\<not> (isRetryableError (Some f) \<and> ?a + m < maxRetries)"
         "rej = Surfaced (terminalError f
                ((requestInterceptor env w (prepare cfg))\<lparr>retryCount := Some (?a + m)\<rparr>))"
      by auto
    from T f(1) have "isRetryableError (Some f)" by (auto simp: transient_def)
    with f(2) le have eq: "?a + m = maxRetries" by simp
    show ?thesis
      using Rejected f(1,3) eq
      by (auto simp: terminalError_fields attemptNumber_set)
  qed
  from run(1-4) le fails last
  show "\<exists>m r w' es. axiosInstance fuel env w cfg = (Some r, w')
                  \<and> dispatched w' = dispatched w + Suc m
                  \<and> events w' = events w @ es
                  \<and> attempts es = [attemptNumber cfg ..< Suc (attemptNumber cfg + m)]
                  \<and> attemptNumber cfg + m \<le> maxRetries
                  \<and> (\<forall>i<m. \<exists>f. transport env (dispatched w + i) = Fails f)
                  \<and> (case r of
                        Resolved resp \<Rightarrow> transport env (dispatched w + m) = Responds resp
                      | Rejected rej \<Rightarrow> attemptNumber cfg + m = maxRetries
                          \<and> (\<exists>f s. transport env (dispatched w + m) = Fails f
                                 \<and> rej = Surfaced s
                                 \<and> originalError s = attach f (err_config s)
                                 \<and> attemptNumber (err_config s) = maxRetries))"
    by blast
qed

theorem C4_retry_loop_bounded_witness:
  "attemptNumber getRooms \<le> maxRetries
   \<and> transient unavailable
   \<and> attempts (events (snd (axiosInstance 4 (always unavailable RefreshThrows)
                              (freshWorld None) getRooms))) = [0, 1, 2, 3]
   \<and> dispatched (snd (axiosInstance 4 (always unavailable RefreshThrows)
                              (freshWorld None) getRooms)) = 4
   \<and> (case fst (axiosInstance 4 (always unavailable RefreshThrows) (freshWorld None) getRooms) of
         Some (Rejected (Surfaced s)) \<Rightarrow>
           err_status s = 503 \<and> attemptNumber (err_config s) = 3
       | _ \<Rightarrow> False)"
proof -
  have fresh: "attemptNumber getRooms \<le> maxRetries"
    by (simp add: attemptNumber_def getRooms_def)
  have tr: "transient unavailable"
    by (simp add: transient_def unavailable_def isRetryableError_def truthy_def
        retryableErrors_def retryableStatuses_def)
  have H: "\<forall>k f. transport (always unavailable RefreshThrows) k = Fails f \<longrightarrow> transient f"
    using tr by (simp add: always_def)
  have fuel: "maxRetries - attemptNumber getRooms < 4"
    by (simp add: maxRetries_def)
  from C4_retry_loop_bounded [OF fresh, of "always unavailable RefreshThrows"] H fuel
  obtain r w' where
    run: "axiosInstance 4 (always unavailable RefreshThrows) (freshWorld None) getRooms = (Some r, w')"
    by blast
  have ev: "attempts (events (snd (axiosInstance 4 (always unavailable RefreshThrows)
                              (freshWorld None) getRooms))) = [0, 1, 2, 3]"
    by (simp add: run_simps unavailable_def)
  have di: "dispatched (snd (axiosInstance 4 (always unavailable RefreshThrows)
                              (freshWorld None) getRooms)) = 4"
    by (simp add: run_simps unavailable_def)
  have res: "case fst (axiosInstance 4 (always unavailable RefreshThrows) (freshWorld None) getRooms) of
         Some (Rejected (Surfaced s)) \<Rightarrow>
           err_status s = 503 \<and> attemptNumber (err_config s) = 3
       | _ \<Rightarrow> False"
    by (simp add: run_simps unavailable_def)
  from fresh tr ev di res run show ?thesis by simp
qed


subsection \<open>Failures without a response\<close>

lemma onRejected_network:
  assumes "\<not> cancelled e" "response e = None"
    "\<not> isRetryableError (Some e) \<or> maxRetries \<le> attemptNumber (config e)"
  shows "onRejected d env w e =
           (Some (Rejected (Surfaced
              (customError (e\<lparr>config := (config e)\<lparr>retryCount := Some (attemptNumber (config e))\<rparr>\<rparr>)
                           ((config e)\<lparr>retryCount := Some (attemptNumber (config e))\<rparr>)))), w)"
proof -
  have r: "isRetryableError (Some (e\<lparr>config := c\<rparr>)) = isRetryableError (Some e)" for c
    by (rule isRetryableError_cong) simp_all
  show ?thesis
    using assms
    by (auto simp: onRejected_def Let_def r attemptNumber_def split: option.splits)
qed

lemma networkMessage_cases:
  "networkMessage c =
     (if truthy c
      then MSG_CANNOT_REACH_SERVER @ '' '' @ MSG_CHECK_NETWORK @ '' (Error: '' @ the c @ '')''
      else MSG_CANNOT_REACH_SERVER @ '' '' @ MSG_CHECK_NETWORK)"
  by (simp add: networkMessage_def MSG_CANNOT_REACH_SERVER_def MSG_CHECK_NETWORK_def)

text \<open>The replay of a configuration the request interceptor has sent: it is sent as it
  is, and its outcome goes through the same handler.\<close>

lemma retry_resends:
  assumes "currentUser w' = currentUser w"
  shows "retry (axiosInstance (Suc n) env)
           (customError e ((requestInterceptor env w (prepare cfg))\<lparr>retryCount := x\<rparr>)) w'
         = (case transport env (dispatched w') of
              Responds r \<Rightarrow>
                (Some (Resolved r),
                 w'\<lparr>dispatched := dispatched w' + 1,
                    events := events w' @
                      [Dispatch ((requestInterceptor env w (prepare cfg))\<lparr>retryCount := x\<rparr>)]\<rparr>)
            | Fails f \<Rightarrow>
                onRejected (axiosInstance n env) env
                  (w'\<lparr>dispatched := dispatched w' + 1,
                     events := events w' @
                       [Dispatch ((requestInterceptor env w (prepare cfg))\<lparr>retryCount := x\<rparr>)]\<rparr>)
                  (attach f ((requestInterceptor env w (prepare cfg))\<lparr>retryCount := x\<rparr>)))"
  by (simp add: retry_def customError_def Let_def requestInterceptor_resend [OF assms]
      split: outcome.splits)

text \<open>
  C8, as stated, fails in two ways. For a cancelled request no response was received,
  and the handler rejects with the library's own error, unchanged, before anything
  else. And the \<open>retry\<close> of the error surfaced after an exhausted retry loop does not
  re-issue the original request: the original request was sent four times (counters 0
  to 3) before it failed, its replay in the same surroundings is sent once, at counter
  3, and fails.
\<close>

theorem C8_cancelled_counterexample:
  "response aborted = None
   \<and> axiosInstance 1 (always aborted RefreshThrows) (freshWorld None) getRooms
       = (Some (Rejected (Raw
            \<lparr>code = Some ''ERR_CANCELED'', response = None, request = True, cancelled = True,
             config = getRooms\<lparr>baseURL := Some ''https://api.example.com'',
                               retryCount := Some 0\<rparr>\<rparr>)),
          \<lparr>currentUser = None, dispatched = 1, refreshed = 0, drawn = 0,
           events = [Dispatch (getRooms\<lparr>baseURL := Some ''https://api.example.com''\<rparr>)]\<rparr>)
   \<and> attempts (events (snd (axiosInstance 4 (always offline RefreshThrows)
                              (freshWorld None) getRooms))) = [0, 1, 2, 3]
   \<and> (case fst (axiosInstance 4 (always offline RefreshThrows) (freshWorld None) getRooms) of
         Some (Rejected (Surfaced s)) \<Rightarrow>
           retryCount (err_config s) = Some 3
           \<and> attempts (events (snd (retry (axiosInstance 4 (always offline RefreshThrows)) s
                                       (freshWorld None)))) = [3]
           \<and> (case fst (retry (axiosInstance 4 (always offline RefreshThrows)) s
                           (freshWorld None)) of
                 Some (Rejected (Surfaced s')) \<Rightarrow> True | _ \<Rightarrow> False)
       | _ \<Rightarrow> False)"
  by (simp add: run_simps aborted_def offline_def retry_def)


text \<open>
  C8 (amended): (1) for every failure other than a cancellation in which no response
  was received and which the handler does not retry (it is not retryable, or the counter
  has reached \<open>maxRetries\<close>), the handler rejects with \<open>customError\<close> built from that
  failure; (2) when no failure of the transport carries a response or is a
  cancellation, a run with more fuel than \<open>maxRetries\<close> ends in the response of the
  first attempt the transport answers or, when an attempt fails and is not retried, in
  the \<open>customError\<close> of that failure, whose configuration is the original request as
  the request interceptor sent it, with the counter written back; (3) a \<open>customError\<close>
  has status 0, the network-error mark, and the two fixed sentences as message,
  followed by \<open>(Error: code)\<close> when the failure has a code; (4) its \<open>retry\<close> sends
  that configuration through the client again: it is sent as it is, and its outcome goes
  through the same handler.
\<close>

theorem C8_network_error_surfaced:
  "(\<forall>d w e. \<not> cancelled e \<and> response e = None
        \<and> (\<not> isRetryableError (Some e) \<or> maxRetries \<le> attemptNumber (config e)) \<longrightarrow>
        onRejected d env w e =
          (Some (Rejected (Surfaced
             (customError
                (e\<lparr>config := (config e)\<lparr>retryCount := Some (attemptNumber (config e))\<rparr>\<rparr>)
                ((config e)\<lparr>retryCount := Some (attemptNumber (config e))\<rparr>)))), w))
   \<and> ((\<forall>k f. transport env k = Fails f \<longrightarrow> \<not> cancelled f \<and> response f = None) \<longrightarrow>
        (\<forall>fuel w cfg. maxRetries < fuel \<longrightarrow>
           (\<exists>m r w'. axiosInstance fuel env w cfg = (Some r, w')
              \<and> dispatched w' = dispatched w + Suc m
              \<and> (\<forall>i<m. \<exists>f. transport env (dispatched w + i) = Fails f)
              \<and> (case r of
                    Resolved resp \<Rightarrow> transport env (dispatched w + m) = Responds resp
                  | Rejected rej \<Rightarrow>
                      \<exists>f k. transport env (dispatched w + m) = Fails f
                           \<and> rej = Surfaced
                                (customError
                                   (attach f ((requestInterceptor env w (prepare cfg))
                                                \<lparr>retryCount := Some k\<rparr>))
                                   ((requestInterceptor env w (prepare cfg))
                                      \<lparr>retryCount := Some k\<rparr>))))))
   \<and> (\<forall>e c.
         err_status (customError e c) = 0
         \<and> isNetworkError (customError e c)
         \<and> originalError (customError e c) = e
         \<and> err_config (customError e c) = c
         \<and> err_message (customError e c) =
             (if truthy (code e)
              then MSG_CANNOT_REACH_SERVER @ '' '' @ MSG_CHECK_NETWORK
                   @ '' (Error: '' @ the (code e) @ '')''
              else MSG_CANNOT_REACH_SERVER @ '' '' @ MSG_CHECK_NETWORK)
         \<and> err_code (customError e c) =
             (if truthy (code e) then code e else Some ''NETWORK_ERROR''))
   \<and> (\<forall>e cfg w w' x n. currentUser w' = currentUser w \<longrightarrow>
         retry (axiosInstance (Suc n) env)
           (customError e ((requestInterceptor env w (prepare cfg))\<lparr>retryCount := x\<rparr>)) w'
         = (case transport env (dispatched w') of
              Responds r \<Rightarrow>
                (Some (Resolved r),
                 w'\<lparr>dispatched := dispatched w' + 1,
                    events := events w' @
                      [Dispatch ((requestInterceptor env w (prepare cfg))\<lparr>retryCount := x\<rparr>)]\<rparr>)
            | Fails f \<Rightarrow>
                onRejected (axiosInstance n env) env
                  (w'\<lparr>dispatched := dispatched w' + 1,
                     events := events w' @
                       [Dispatch ((requestInterceptor env w (prepare cfg))\<lparr>retryCount := x\<rparr>)]\<rparr>)
                  (attach f ((requestInterceptor env w (prepare cfg))\<lparr>retryCount := x\<rparr>))))"
proof -
  have one: "\<forall>d w e. \<not> cancelled e \<and> response e = None
        \<and> (\<not> isRetryableError (Some e) \<or> maxRetries \<le> attemptNumber (config e)) \<longrightarrow>
        onRejected d env w e =
          (Some (Rejected (Surfaced
             (customError
                (e\<lparr>config := (config e)\<lparr>retryCount := Some (attemptNumber (config e))\<rparr>\<rparr>)
                ((config e)\<lparr>retryCount := Some (attemptNumber (config e))\<rparr>)))), w)"
    using onRejected_network by blast
  have two: "(\<forall>k f. transport env k = Fails f \<longrightarrow> \<not> cancelled f \<and> response f = None) \<longrightarrow>
        (\<forall>fuel w cfg. maxRetries < fuel \<longrightarrow>
           (\<exists>m r w'. axiosInstance fuel env w cfg = (Some r, w')
              \<and> dispatched w' = dispatched w + Suc m
              \<and> (\<forall>i<m. \<exists>f. transport env (dispatched w + i) = Fails f)
              \<and> (case r of
                    Resolved resp \<Rightarrow> transport env (dispatched w + m) = Responds resp
                  | Rejected rej \<Rightarrow>
                      \<exists>f k. transport env (dispatched w + m) = Fails f
                           \<and> rej = Surfaced
                                (customError
                                   (attach f ((requestInterceptor env w (prepare cfg))
                                                \<lparr>retryCount := Some k\<rparr>))
                                   ((requestInterceptor env w (prepare cfg))
                                      \<lparr>retryCount := Some k\<rparr>)))))"
  proof (intro impI allI)
    fix fuel w cfg
    assume N: "\<forall>k f. transport env k = Fails f \<longrightarrow> \<not> cancelled f \<and> response f = None"
      and fuel: "maxRetries < fuel"
    let ?a = "attemptNumber cfg"
    let ?sent = "requestInterceptor env w (prepare cfg)"
    from N have H: "\<forall>k f. transport env k = Fails f \<longrightarrow>
                \<not> cancelled f \<and> (case response f of None \<Rightarrow> True | Some r \<Rightarrow> status r \<noteq> 401)"
      by auto
    from fuel have "maxRetries - ?a < fuel" by simp
    from axiosInstance_run [OF H this, of w] obtain m r w' es where
      run: "axiosInstance fuel env w cfg = (Some r, w')"
           "dispatched w' = dispatched w + Suc m"
           "\<forall>i<m. \<exists>f. transport env (dispatched w + i) = Fails f
                \<and> isRetryableError (Some f) \<and> ?a + i < maxRetries"
           "case r of
              Resolved resp \<Rightarrow> transport env (dispatched w + m) = Responds resp
            | Rejected rej \<Rightarrow>
                \<exists>f. transport env (dispatched w + m) = Fails f
                   \<and> \<not> (isRetryableError (Some f) \<and> ?a + m < maxRetries)
                   \<and> rej = Surfaced (terminalError f (?sent\<lparr>retryCount := Some (?a + m)\<rparr>))"
      by blast
    have fails: "\<forall>i<m. \<exists>f. transport env (dispatched w + i) = Fails f"
      using run(3) by blast
    have last: "case r of
                    Resolved resp \<Rightarrow> transport env (dispatched w + m) = Responds resp
                  | Rejected rej \<Rightarrow>
                      \<exists>f k. transport env (dispatched w + m) = Fails f
                           \<and> rej = Surfaced
                                (customError (attach f (?sent\<lparr>retryCount := Some k\<rparr>))
                                   (?sent\<lparr>retryCount := Some k\<rparr>))"
    proof (cases r)
      case (Resolved resp)
      with run(4) show ?thesis by simp
    next
      case (Rejected rej)
      with run(4) obtain f where
        f: "transport env (dispatched w + m) = Fails f"
           "rej = Surfaced (terminalError f (?sent\<lparr>retryCount := Some (?a + m)\<rparr>))"
        by auto
      from N f(1) have "response f = None" by blast
      then have "terminalError f (?sent\<lparr>retryCount := Some (?a + m)\<rparr>)
                   = customError (attach f (?sent\<lparr>retryCount := Some (?a + m)\<rparr>))
                       (?sent\<lparr>retryCount := Some (?a + m)\<rparr>)"
        by (simp add: terminalError_def)
      with Rejected f show ?thesis by auto
    qed
    from run(1,2) fails last
    show "\<exists>m r w'. axiosInstance fuel env w cfg = (Some r, w')
              \<and> dispatched w' = dispatched w + Suc m
              \<and> (\<forall>i<m. \<exists>f. transport env (dispatched w + i) = Fails f)
              \<and> (case r of
                    Resolved resp \<Rightarrow> transport env (dispatched w + m) = Responds resp
                  | Rejected rej \<Rightarrow>
                      \<exists>f k. transport env (dispatched w + m) = Fails f
                           \<and> rej = Surfaced
                                (customError
                                   (attach f ((requestInterceptor env w (prepare cfg))
                                                \<lparr>retryCount := Some k\<rparr>))
                                   ((requestInterceptor env w (prepare cfg))
                                      \<lparr>retryCount := Some k\<rparr>)))"
      by blast
  qed
  have three: "\<forall>e c.
         err_status (customError e c) = 0
         \<and> isNetworkError (customError e c)
         \<and> originalError (customError e c) = e
         \<and> err_config (customError e c) = c
         \<and> err_message (customError e c) =
             (if truthy (code e)
              then MSG_CANNOT_REACH_SERVER @ '' '' @ MSG_CHECK_NETWORK
                   @ '' (Error: '' @ the (code e) @ '')''
              else MSG_CANNOT_REACH_SERVER @ '' '' @ MSG_CHECK_NETWORK)
         \<and> err_code (customError e c) =
             (if truthy (code e) then code e else Some ''NETWORK_ERROR'')"
    by (simp add: customError_def networkMessage_cases)
  have four: "\<forall>e cfg w w' x n. currentUser w' = currentUser w \<longrightarrow>
         retry (axiosInstance (Suc n) env)
           (customError e ((requestInterceptor env w (prepare cfg))\<lparr>retryCount := x\<rparr>)) w'
         = (case transport env (dispatched w') of
              Responds r \<Rightarrow>
                (Some (Resolved r),
                 w'\<lparr>dispatched := dispatched w' + 1,
                    events := events w' @
                      [Dispatch ((requestInterceptor env w (prepare cfg))\<lparr>retryCount := x\<rparr>)]\<rparr>)
            | Fails f \<Rightarrow>
                onRejected (axiosInstance n env) env
                  (w'\<lparr>dispatched := dispatched w' + 1,
                     events := events w' @
                       [Dispatch ((requestInterceptor env w (prepare cfg))\<lparr>retryCount := x\<rparr>)]\<rparr>)
                  (attach f ((requestInterceptor env w (prepare cfg))\<lparr>retryCount := x\<rparr>)))"
    using retry_resends by blast
  from one two three four show ?thesis by (intro conjI)
qed

theorem C8_network_error_surfaced_witness:
  "\<not> cancelled offline \<and> response offline = None
   \<and> (case fst (axiosInstance 4 (always offline RefreshThrows) (freshWorld None) getRooms) of
         Some (Rejected (Surfaced s)) \<Rightarrow>
           err_status s = 0 \<and> isNetworkError s \<and> err_code s = Some ''ERR_NETWORK''
           \<and> err_message s = MSG_CANNOT_REACH_SERVER @ '' '' @ MSG_CHECK_NETWORK
                               @ '' (Error: ERR_NETWORK)''
           \<and> err_config s = getRooms\<lparr>baseURL := Some ''https://api.example.com'',
                                       retryCount := Some 3\<rparr>
       | _ \<Rightarrow> False)"
proof -
  have off: "\<not> cancelled offline" "response offline = None"
    by (simp_all add: offline_def)
  then have H: "\<forall>k f. transport (always offline RefreshThrows) k = Fails f
                  \<longrightarrow> \<not> cancelled f \<and> response f = None"
    by (simp add: always_def)
  have fuel: "maxRetries < 4" by (simp add: maxRetries_def)
  from C8_network_error_surfaced [of "always offline RefreshThrows"] H fuel
  obtain m r w' where
    run: "axiosInstance 4 (always offline RefreshThrows) (freshWorld None) getRooms = (Some r, w')"
    by blast
  have "case fst (axiosInstance 4 (always offline RefreshThrows) (freshWorld None) getRooms) of
         Some (Rejected (Surfaced s)) \<Rightarrow>
           err_status s = 0 \<and> isNetworkError s \<and> err_code s = Some ''ERR_NETWORK''
           \<and> err_message s = MSG_CANNOT_REACH_SERVER @ '' '' @ MSG_CHECK_NETWORK
                               @ '' (Error: ERR_NETWORK)''
           \<and> err_config s = getRooms\<lparr>baseURL := Some ''https://api.example.com'',
                                       retryCount := Some 3\<rparr>
       | _ \<Rightarrow> False"
    by (simp add: run_simps offline_def networkMessage_cases)
  with off run show ?thesis by simp
qed

subsection \<open>Status 401\<close>

text \<open>
  C2 at a failing input: the request is answered with status 401 and
  \<open>refreshToken()\<close> returns \<open>false\<close> without throwing. The handler asks for the
  refresh, sends nothing again and rejects with the 401 error, but \<open>logout()\<close> is not
  called: it is called only when \<open>refreshToken()\<close> throws
  (\<open>recover401_refresh_throws\<close>, and the last line below).
\<close>

theorem C2_refresh_denied_without_logout:
  "Logout \<notin> set (events (snd (axiosInstance 2 (always unauthorized (RefreshReturns False None))
                                   (freshWorld (Some alice)) getRooms)))
   \<and> RefreshCall \<in> set (events (snd (axiosInstance 2 (always unauthorized (RefreshReturns False None))
                                   (freshWorld (Some alice)) getRooms)))
   \<and> dispatched (snd (axiosInstance 2 (always unauthorized (RefreshReturns False None))
                                   (freshWorld (Some alice)) getRooms)) = 1
   \<and> (case fst (axiosInstance 2 (always unauthorized (RefreshReturns False None))
                                   (freshWorld (Some alice)) getRooms) of
         Some (Rejected (Surfaced s)) \<Rightarrow> err_status s = 401 \<and> err_message s = MSG_AUTH_REQUIRED
       | _ \<Rightarrow> False)
   \<and> Logout \<in> set (events (snd (axiosInstance 2 (always unauthorized RefreshThrows)
                                   (freshWorld (Some alice)) getRooms)))"
  by (simp add: run_simps unauthorized_def alice_def errorMessage_def)


section \<open>The file service: properties\<close>

subsection \<open>formatFileSize\<close>




lemmas format_simps =
  formatFileSize_def formatFileSize_truncating_def toFixed2_def showHundredths_def
  examplePlatform_def floorLog1024.simps showNat.simps digitChar_def sizes_def template_def
  Let_def

lemma formatFileSize_limit:
  "formatFileSize (examplePlatform u init) (50 * 1024 * 1024) = ''50.00 MB''"
  by (simp add: format_simps)




subsection \<open>Upload\<close>

lemma validateFile_ok:
  "file_size f \<le> uploadLimit svc \<Longrightarrow>
     validateFile env svc (Some f) = (\<lparr>success = True, result_message = None, result_data = None\<rparr>, [])"
  by (simp add: validateFile_def)

lemma validateFile_rejects:
  assumes "f = None \<or> (\<exists>file. f = Some file \<and> uploadLimit svc < file_size file)"
  shows "\<not> success (fst (validateFile env svc f))
         \<and> (\<exists>m. fst (validateFile env svc f)
                  = \<lparr>success = False, result_message = Some m, result_data = None\<rparr>)
         \<and> networkOps (snd (validateFile env svc f)) = []"
  using assms by (auto simp: validateFile_def)

text \<open>
  C5, as stated, fails when a network operation fails: with a present file of 2048
  bytes and a session, an \<open>init\<close> call that is rejected ends the upload after one
  network operation, with the rejection thrown.
\<close>

theorem C5_init_fails_counterexample:
  "uploadFile (examplePlatform (Some alice) (Inl offline)) (FileService gateway) (Some photo)
     = (Inl (AxiosError offline),
        [Network (Post ''https://api.example.com/upload/init''
                    [(''originalname'', JString ''photo.png''),
                     (''mimetype'', JString ''image/png''),
                     (''size'', JNumber 2048)]
                    [(''x-auth-token'', ''tok-1''), (''Content-Type'', ''application/json'')])])"
  by (simp add: uploadFile_def validateFile_def initializeUpload_def examplePlatform_def
      FileService_def photo_def alice_def gateway_def truthy_def template_def Let_def)

text \<open>
  C5 (amended): for every present file of at most 50 MiB, with a session that has a
  token, and with each of the three network operations succeeding, \<open>uploadFile\<close>
  performs exactly three network operations, in the order init, transfer to the
  \<open>uploadUrl\<close> returned by init, complete, and returns \<open>{success: true, data}\<close> with the
  file record returned by complete.
\<close>

theorem C5_uploadFile_three_phases:
  assumes "file_size f \<le> 50 * 1024 * 1024"
    and "getCurrentUser env = Some u" and "truthy (token u)"
    and "postInit env = Inr s" and "putFile env = Inr ()" and "postComplete env = Inr stored"
  shows "uploadFile env (FileService b) (Some f)
     = (Inr \<lparr>success = True, result_message = None, result_data = Some stored\<rparr>,
        [Network (Post (template b @ ''/upload/init'')
                    [(''originalname'', JString (file_name f)),
                     (''mimetype'', JString (file_type f)),
                     (''size'', JNumber (file_size f))]
                    [(''x-auth-token'', the (token u)), (''Content-Type'', ''application/json'')]),
         Network (Put (uploadUrl s) f [(''Content-Type'', file_type f)]),
         Network (Post (template b @ ''/upload/complete/'' @ uploadId s) []
                    [(''x-auth-token'', the (token u))])])"
proof -
  have v: "validateFile env (FileService b) (Some f)
             = (\<lparr>success = True, result_message = None, result_data = None\<rparr>, [])"
    using assms(1) by (intro validateFile_ok) (simp add: FileService_def)
  have b: "baseUrl (FileService b) = b" by (simp add: FileService_def)
  show ?thesis
    using assms(2-6)
    by (simp add: uploadFile_def v b initializeUpload_def uploadToS3_def completeUpload_def
        Let_def)
qed

theorem C5_uploadFile_three_phases_witness:
  "file_size photo \<le> 50 * 1024 * 1024
   \<and> truthy (token alice)
   \<and> fst (uploadFile (examplePlatform (Some alice) (Inr session1)) (FileService gateway)
            (Some photo))
       = Inr \<lparr>success = True, result_message = None, result_data = Some ''{id: 7}''\<rparr>
   \<and> networkOps (snd (uploadFile (examplePlatform (Some alice) (Inr session1))
                         (FileService gateway) (Some photo)))
       = [Post ''https://api.example.com/upload/init''
            [(''originalname'', JString ''photo.png''), (''mimetype'', JString ''image/png''),
             (''size'', JNumber 2048)]
            [(''x-auth-token'', ''tok-1''), (''Content-Type'', ''application/json'')],
          Put ''https://storage.example.com/put/u-1'' photo [(''Content-Type'', ''image/png'')],
          Post ''https://api.example.com/upload/complete/u-1'' [] [(''x-auth-token'', ''tok-1'')]]"
proof -
  have h1: "file_size photo \<le> 50 * 1024 * 1024" by (simp add: photo_def)
  have h2: "getCurrentUser (examplePlatform (Some alice) (Inr session1)) = Some alice"
    by (simp add: examplePlatform_def)
  have h3: "truthy (token alice)" by (simp add: alice_def truthy_def)
  have h4: "postInit (examplePlatform (Some alice) (Inr session1)) = Inr session1"
    by (simp add: examplePlatform_def)
  have h5: "putFile (examplePlatform (Some alice) (Inr session1)) = Inr ()"
    by (simp add: examplePlatform_def)
  have h6: "postComplete (examplePlatform (Some alice) (Inr session1)) = Inr ''{id: 7}''"
    by (simp add: examplePlatform_def)
  from C5_uploadFile_three_phases [OF h1 h2 h3 h4 h5 h6, of gateway] h1 h3
  show ?thesis
    by (simp add: gateway_def template_def session1_def alice_def photo_def)
qed

text \<open>
  C6: for a missing file and for every file larger than 50 MiB, \<open>uploadFile\<close> throws
  nothing, returns \<open>{success: false, message}\<close> and performs no network operation; its
  only effect is the notification.
\<close>

theorem C6_uploadFile_rejects_without_network:
  assumes "f = None \<or> (\<exists>file. f = Some file \<and> 50 * 1024 * 1024 < file_size file)"
  shows "(\<exists>m. fst (uploadFile env (FileService b) f)
               = Inr \<lparr>success = False, result_message = Some m, result_data = None\<rparr>)
         \<and> networkOps (snd (uploadFile env (FileService b) f)) = []
         \<and> (\<exists>note. snd (uploadFile env (FileService b) f) = [ToastError note])"
proof -
  have "f = None \<or> (\<exists>file. f = Some file \<and> uploadLimit (FileService b) < file_size file)"
    using assms by (simp add: FileService_def)
  then show ?thesis
    by (auto simp: uploadFile_def validateFile_def)
qed

theorem C6_uploadFile_rejects_without_network_witness:
  "50 * 1024 * 1024 < file_size movie
   \<and> uploadFile (examplePlatform (Some alice) (Inr session1)) (FileService gateway) (Some movie)
       = (Inr \<lparr>success = False, result_message = Some MSG_SIZE_EXCEEDED, result_data = None\<rparr>,
          [ToastError (MSG_SIZE_PREFIX @ ''50.00 MB'' @ MSG_SIZE_SUFFIX)])
   \<and> uploadFile (examplePlatform (Some alice) (Inr session1)) (FileService gateway) None
       = (Inr \<lparr>success = False, result_message = Some MSG_NO_FILE_SELECTED, result_data = None\<rparr>,
          [ToastError MSG_NO_FILE_SELECTED])"
proof -
  have big: "50 * 1024 * 1024 < file_size movie" by (simp add: movie_def)
  then have h: "Some movie = None \<or> (\<exists>file. Some movie = Some file \<and> 50 * 1024 * 1024 < file_size file)"
    by simp
  from C6_uploadFile_rejects_without_network [OF h, of "examplePlatform (Some alice) (Inr session1)" gateway]
  have none: "networkOps (snd (uploadFile (examplePlatform (Some alice) (Inr session1))
                           (FileService gateway) (Some movie))) = []"
    by simp
  have lim: "formatFileSize (examplePlatform (Some alice) (Inr session1))
               (uploadLimit (FileService gateway)) = ''50.00 MB''"
    using formatFileSize_limit [of "Some alice" "Inr session1"] by (simp add: FileService_def)
  have m: "uploadFile (examplePlatform (Some alice) (Inr session1)) (FileService gateway) (Some movie)
       = (Inr \<lparr>success = False, result_message = Some MSG_SIZE_EXCEEDED, result_data = None\<rparr>,
          [ToastError (MSG_SIZE_PREFIX @ ''50.00 MB'' @ MSG_SIZE_SUFFIX)])"
    using big by (simp add: uploadFile_def validateFile_def lim) (simp add: FileService_def)
  have n: "uploadFile (examplePlatform (Some alice) (Inr session1)) (FileService gateway) None
       = (Inr \<lparr>success = False, result_message = Some MSG_NO_FILE_SELECTED, result_data = None\<rparr>,
          [ToastError MSG_NO_FILE_SELECTED])"
    by (simp add: uploadFile_def validateFile_def)
  from big m n none show ?thesis by simp
qed


subsection \<open>Addresses of stored files\<close>



lemma getPreviewUrl_missing_credentials:
  assumes "truthy (filename info)"
    and "getCurrentUser env = None
         \<or> (\<exists>u. getCurrentUser env = Some u \<and> (\<not> truthy (token u) \<or> \<not> truthy (sessionId u)))"
  shows "getPreviewUrl env svc (Some info) True = Inl (Error MSG_NO_CREDENTIALS)"
  using assms by (auto simp: getPreviewUrl_def Let_def)




text \<open>
  C10, as stated, fails for the empty file name: the function throws the error of a
  missing file name before it looks at the session.
\<close>

theorem C10_empty_filename_counterexample:
  "getFileUrl (examplePlatform None (Inr session1)) (FileService gateway) (Some '''') False True
     = Inl (Error MSG_NO_FILENAME)"
  by (simp add: getFileUrl_def truthy_def)

text \<open>
  C10 (amended): for every non-empty file name, \<open>getFileUrl(filename, forPreview, true)\<close>
  with no session, or with a session that has no token, throws nothing and returns the
  address of the endpoint, \<open>view\<close> or \<open>download\<close>, with no query appended;
  \<open>getPreviewUrl\<close> for a descriptor with the same name throws the error of missing
  credentials in that situation.
\<close>

theorem C10_getFileUrl_without_session:
  assumes "truthy name"
    and "getCurrentUser env = None \<or> (\<exists>u. getCurrentUser env = Some u \<and> \<not> truthy (token u))"
  shows "getFileUrl env svc name forPreview True
           = Inr (template (baseUrl svc) @ ''/api/files/''
                  @ (if forPreview then ''view'' else ''download'') @ ''/'' @ the name)
         \<and> getPreviewUrl env svc (Some \<lparr>filename = name\<rparr>) True = Inl (Error MSG_NO_CREDENTIALS)"
proof -
  have "getFileUrl env svc name forPreview True
           = Inr (template (baseUrl svc) @ ''/api/files/''
                  @ (if forPreview then ''view'' else ''download'') @ ''/'' @ the name)"
    using assms by (auto simp: getFileUrl_def Let_def)
  moreover have "getPreviewUrl env svc (Some \<lparr>filename = name\<rparr>) True = Inl (Error MSG_NO_CREDENTIALS)"
    using assms by (intro getPreviewUrl_missing_credentials) auto
  ultimately show ?thesis by simp
qed

theorem C10_getFileUrl_without_session_witness:
  "truthy (Some ''photo.png'')
   \<and> getFileUrl (examplePlatform None (Inr session1)) (FileService gateway)
        (Some ''photo.png'') True True = Inr ''https://api.example.com/api/files/view/photo.png''
   \<and> getFileUrl (examplePlatform None (Inr session1)) (FileService gateway)
        (Some ''photo.png'') False True
       = Inr ''https://api.example.com/api/files/download/photo.png''
   \<and> getPreviewUrl (examplePlatform None (Inr session1)) (FileService gateway)
        (Some \<lparr>filename = Some ''photo.png''\<rparr>) True = Inl (Error MSG_NO_CREDENTIALS)"
proof -
  have h1: "truthy (Some ''photo.png'')" by (simp add: truthy_def)
  have h2: "getCurrentUser (examplePlatform None (Inr session1)) = None
            \<or> (\<exists>u. getCurrentUser (examplePlatform None (Inr session1)) = Some u
                    \<and> \<not> truthy (token u))"
    by (simp add: examplePlatform_def)
  from C10_getFileUrl_without_session [OF h1 h2, of "FileService gateway" True]
       C10_getFileUrl_without_session [OF h1 h2, of "FileService gateway" False] h1
  show ?thesis
    by (simp add: FileService_def gateway_def template_def)
qed

end
